theory Spec2Isabelle
  imports Main "HOL-Library.Word"
begin

unbundle bit_operations_syntax

section \<open>Machine types and byte order\<close>

text \<open>
  The C types of the scanner: \<open>uint8_t\<close>, \<open>uint16_t\<close>, \<open>uint32_t\<close> and \<open>uint64_t\<close>
  (\<open>size_t\<close> on the 64-bit hosts the scanner runs on). An \<open>int\<close> is a 32-bit word read
  with \<open>sint\<close>. Addresses and ports with the suffix \<open>_n\<close> hold network byte order; the
  host is little-endian, so \<open>htons\<close> swaps the two bytes of a \<open>uint16_t\<close>.
\<close>

type_synonym u8 = "8 word"
type_synonym u16 = "16 word"
type_synonym u32 = "32 word"
type_synonym u64 = "64 word"

definition htons :: "u16 \<Rightarrow> u16" where
  "htons x = push_bit 8 x OR drop_bit 8 x"

definition ntohs :: "u16 \<Rightarrow> u16" where
  "ntohs x = htons x"

text \<open>
  \<open>log_fatal(tag, msg)\<close> logs and ends the process: the model returns the tag and the
  format string (without its quotation marks, a long message cut after its first
  clause) as the left value of a sum, and nothing after it runs.
\<close>

type_synonym fatal = "string \<times> string"

definition log_fatal :: "string \<Rightarrow> string \<Rightarrow> fatal + 'a" where
  "log_fatal tag msg = Inl (tag, msg)"

section \<open>send.c: global sender initialisation\<close>

text \<open>
  The fields of \<open>zconf\<close> and \<open>zsend\<close> that \<open>send_init\<close> reads. \<open>senders\<close> and
  \<open>total_shards\<close> hold the values after the cast \<open>(uint32_t)\<close> of the source, and
  \<open>port_count\<close> the value after its conversion to \<open>uint64_t\<close> in the product with
  \<open>blocklist_count_allowed()\<close>. \<open>rate\<close> is an \<open>int\<close>, \<open>bandwidth\<close> a \<open>uint64_t\<close>.
  The record also holds the fields the sender threads and the probe modules read:
  \<open>port_count\<close> and \<open>ports\<close> are those of \<open>zconf.ports\<close>, \<open>batch_size\<close> is
  \<open>zconf.batch\<close>, and \<open>packet_streams\<close> and \<open>retries\<close> are \<open>int\<close>s.
\<close>

record state_conf =
  ipv6_target_filename :: "string option"
  list_of_ips_filename :: "string option"
  senders :: u32
  shard_num :: u32
  total_shards :: u32
  port_count :: u64
  ports :: "u16 list"
  source_port_first :: u16
  source_port_last :: u16
  number_source_ips :: u32
  source_ip_addresses :: "u32 list"
  packet_streams :: u32
  probe_ttl :: u8
  batch_size :: u16
  retries :: u32
  bandwidth :: u64
  rate :: u32
  hw_mac_set :: bool
  hw_mac :: "u8 list"
  gw_mac :: "u8 list"
  dryrun :: bool
  dnsippadding :: bool

text \<open>
  What the collaborators of \<open>send_init\<close> answer: \<open>inet_pton\<close> on the IPv6 source
  address, \<open>blocklist_count_allowed()\<close>, the probe module's \<open>global_initialize\<close> (absent
  when the module has none) with the \<open>max_packet_length\<close> the module declares once it
  ran, and \<open>get_iface_hw_addr\<close>.
\<close>

record init_env =
  inet_pton_ret :: int
  blocklist_count_allowed :: u64
  global_initialize_ret :: "int option"
  max_packet_length :: u64
  get_iface_hw_addr_ret :: int

text \<open>The arguments \<open>iterator_init\<close> is called with stand for the iterator it builds.\<close>

record iterator_t =
  it_num_threads :: u32
  it_shard :: u32
  it_num_shards :: u32
  it_num_addrs :: u64
  it_num_ports :: u64

record send_globals =
  it :: iterator_t
  conf :: state_conf
  num_src_ports :: u16
  ipv6 :: bool

text \<open>
  Lines 123 to 154: the bandwidth in bit/s becomes a packet rate. \<open>pkt_len\<close> is a
  \<open>size_t\<close>; the quotient is compared with \<open>0xFFFFFFFFu\<close> as a \<open>uint64_t\<close> and then
  stored in the \<open>int\<close> \<open>zconf.rate\<close>, keeping its low 32 bits.
\<close>

definition bandwidth_pkt_len :: "u64 \<Rightarrow> u64" where
  "bandwidth_pkt_len mpl =
     (let pkt_len = mpl;
          pkt_len = pkt_len * 8;
          pkt_len = pkt_len + 8 * 24
      in if pkt_len < 84 * 8 then 84 * 8 else pkt_len)"

definition bandwidth_to_rate :: "state_conf \<Rightarrow> u64 \<Rightarrow> state_conf" where
  "bandwidth_to_rate zc mpl =
     (if 0 < bandwidth zc then
        (let pkt_len = bandwidth_pkt_len mpl in
         if bandwidth zc div pkt_len > 0xFFFFFFFF then zc\<lparr>rate := 0\<rparr>
         else
           (let zc1 = zc\<lparr>rate := ucast (bandwidth zc div pkt_len)\<rparr>
            in if rate zc1 = 0 then zc1\<lparr>rate := 1\<rparr> else zc1))
      else zc)"

definition send_init :: "state_conf \<Rightarrow> u64 \<Rightarrow> init_env \<Rightarrow> fatal + send_globals" where
  "send_init zc zsend_max_targets env =
     (if ipv6_target_filename zc \<noteq> None \<and> inet_pton_ret env \<noteq> 1 then
        log_fatal ''send''
          ''could not read valid IPv6 src address, inet_pton returned %d''
      else
      let num_subshards = senders zc * total_shards zc in
      if ucast num_subshards > blocklist_count_allowed env * port_count zc then
        log_fatal ''send'' ''senders * shards > allowed probes''
      else if zsend_max_targets \<noteq> 0 \<and> ucast num_subshards > zsend_max_targets then
        log_fatal ''send'' ''senders * shards > max targets''
      else
      let num_addrs = blocklist_count_allowed env;
          iter = \<lparr>it_num_threads = senders zc, it_shard = shard_num zc,
                  it_num_shards = total_shards zc, it_num_addrs = num_addrs,
                  it_num_ports = port_count zc\<rparr>;
          nsp = source_port_last zc - source_port_first zc + 1 in
      if (case global_initialize_ret env of None \<Rightarrow> False | Some r \<Rightarrow> r \<noteq> 0) then
        log_fatal ''send'' ''global initialization for probe module failed.''
      else if 0 < bandwidth zc \<and> 0 < sint (rate zc) then
        log_fatal ''send'' ''must specify rate or bandwidth, or neither, not both.''
      else
      let zc1 = bandwidth_to_rate zc (max_packet_length env);
          zc2 = (if sint (rate zc1) = - 1 then zc1\<lparr>rate := 10000\<rparr> else zc1) in
      if sint (rate zc2) < 0 then
        log_fatal ''send'' ''rate impossibly slow''
      else if \<not> hw_mac_set zc2 \<and> get_iface_hw_addr_ret env \<noteq> 0 then
        log_fatal ''send''
          ''ZMap could not retrieve the hardware (MAC) address for the interface''
      else
        Inr \<lparr>it = iter, conf = zc2, num_src_ports = nsp,
             ipv6 = (ipv6_target_filename zc \<noteq> None)\<rparr>)"

subsection \<open>Two configurations\<close>

text \<open>
  Four senders on four shards for eight allowed addresses and one port; and a scan
  configured by a bandwidth of 1 Gbit/s with a probe module whose longest packet has
  40 bytes.
\<close>

definition default_conf :: state_conf where
  "default_conf = \<lparr>ipv6_target_filename = None, list_of_ips_filename = None,
     senders = 1, shard_num = 0, total_shards = 1, port_count = 1, ports = [53],
     source_port_first = 32768, source_port_last = 61000, number_source_ips = 1,
     source_ip_addresses = [0x0100000A], packet_streams = 1, probe_ttl = 255,
     batch_size = 64, retries = 10, bandwidth = 0, rate = 10000, hw_mac_set = True,
     hw_mac = [0x02, 0x00, 0x00, 0x00, 0x00, 0x02],
     gw_mac = [0x02, 0x00, 0x00, 0x00, 0x00, 0x01],
     dryrun = False, dnsippadding = False\<rparr>"

definition oversubscribed_conf :: state_conf where
  "oversubscribed_conf = default_conf\<lparr>senders := 4, total_shards := 4\<rparr>"

definition oversubscribed_env :: init_env where
  "oversubscribed_env = \<lparr>inet_pton_ret = 1, blocklist_count_allowed = 8,
     global_initialize_ret = Some 0, max_packet_length = 40, get_iface_hw_addr_ret = 0\<rparr>"

definition gigabit_conf :: state_conf where
  "gigabit_conf = default_conf\<lparr>bandwidth := 1000000000, rate := 0\<rparr>"

definition gigabit_env :: init_env where
  "gigabit_env = \<lparr>inet_pton_ret = 1, blocklist_count_allowed = 256,
     global_initialize_ret = Some 0, max_packet_length = 40, get_iface_hw_addr_ret = 0\<rparr>"

definition gigabit_globals :: send_globals where
  "gigabit_globals =
     \<lparr>it = \<lparr>it_num_threads = 1, it_shard = 0, it_num_shards = 1, it_num_addrs = 256,
             it_num_ports = 1\<rparr>,
      conf = gigabit_conf\<lparr>rate := 1488095\<rparr>, num_src_ports = 28233, ipv6 = False\<rparr>"

section \<open>probe\_modules/packet.h and packet.c\<close>

subsection \<open>Source ports\<close>

text \<open>
  \<open>num_ports\<close> and \<open>probe_num\<close> are \<open>int\<close>s and \<open>validation[1]\<close> is a \<open>uint32_t\<close>, so
  the sums and remainders are taken in \<open>unsigned int\<close>: they wrap at \<open>2 ^ 32\<close>. The
  callers set \<open>num_ports = source_port_last - source_port_first + 1\<close>; a \<open>num_ports\<close>
  of 0 would trap in C. \<open>min\<close>, \<open>max\<close> and \<open>to_validate\<close> are \<open>int32_t\<close> and are
  compared signed. The validation words are a list of four \<open>uint32_t\<close>.
\<close>

definition get_src_port :: "state_conf \<Rightarrow> u32 \<Rightarrow> u32 \<Rightarrow> u32 list \<Rightarrow> u16" where
  "get_src_port zc num_ports probe_num validation =
     ucast ((ucast (source_port_first zc) :: u32) +
            ((validation ! 1 + probe_num) mod num_ports))"

definition check_dst_port :: "state_conf \<Rightarrow> u16 \<Rightarrow> u32 \<Rightarrow> u32 list \<Rightarrow> int" where
  "check_dst_port zc port num_ports validation =
     (if port > source_port_last zc \<or> port < source_port_first zc then 0
      else
        let to_validate = (ucast port :: u32) - ucast (source_port_first zc);
            minv = validation ! 1 mod num_ports;
            maxv = (validation ! 1 + packet_streams zc - 1) mod num_ports
        in if sint minv \<le> sint maxv then
             (if sint to_validate \<le> sint maxv \<and> sint to_validate \<ge> sint minv then 1 else 0)
           else
             (if (sint to_validate \<le> sint maxv) \<noteq> (sint to_validate \<ge> sint minv)
              then 1 else 0))"

subsection \<open>Headers of a probe under construction\<close>

text \<open>
  A probe buffer is read through the structs the modules overlay on it. Multi-byte
  fields hold the value the host reads, so a field assigned \<open>htons x\<close> holds \<open>htons x\<close>.
\<close>

record ether_header =
  ether_dhost :: "u8 list"
  ether_shost :: "u8 list"
  ether_type :: u16

record ip_hdr =
  ip_hl :: "4 word"
  ip_v :: "4 word"
  ip_tos :: u8
  ip_len :: u16
  ip_id :: u16
  ip_off :: u16
  ip_ttl :: u8
  ip_p :: u8
  ip_sum :: u16
  ip_src :: u32
  ip_dst :: u32

record udphdr =
  uh_sport :: u16
  uh_dport :: u16
  uh_ulen :: u16
  uh_sum :: u16

definition ETHER_ADDR_LEN :: nat where "ETHER_ADDR_LEN = 6"
definition ETHERTYPE_IP :: u16 where "ETHERTYPE_IP = 0x0800"
definition IPPROTO_ICMP :: u8 where "IPPROTO_ICMP = 1"
definition IPPROTO_UDP :: u8 where "IPPROTO_UDP = 17"
definition IPPROTO_ICMPV6 :: u8 where "IPPROTO_ICMPV6 = 58"
definition MAXTTL :: u8 where "MAXTTL = 255"

definition make_eth_header_ethertype ::
  "ether_header \<Rightarrow> u8 list \<Rightarrow> u8 list \<Rightarrow> u16 \<Rightarrow> ether_header" where
  "make_eth_header_ethertype ethh src dst ethertype =
     ethh\<lparr>ether_shost := take ETHER_ADDR_LEN src,
          ether_dhost := take ETHER_ADDR_LEN dst,
          ether_type := htons ethertype\<rparr>"

definition make_eth_header :: "ether_header \<Rightarrow> u8 list \<Rightarrow> u8 list \<Rightarrow> ether_header" where
  "make_eth_header ethh src dst = make_eth_header_ethertype ethh src dst ETHERTYPE_IP"

definition make_ip_header :: "ip_hdr \<Rightarrow> u8 \<Rightarrow> u16 \<Rightarrow> ip_hdr" where
  "make_ip_header iph protocol len =
     iph\<lparr>ip_hl := 5, ip_v := 4, ip_tos := 0, ip_len := len, ip_id := htons 54321,
         ip_off := 0, ip_ttl := MAXTTL, ip_p := protocol, ip_sum := 0\<rparr>"

definition make_udp_header :: "udphdr \<Rightarrow> u16 \<Rightarrow> udphdr" where
  "make_udp_header udp_header len = udp_header\<lparr>uh_ulen := htons len, uh_sum := 0\<rparr>"

text \<open>
  \<open>in_checksum\<close> over \<open>len\<close> bytes given as their \<open>len div 2\<close> 16-bit words and the odd
  last byte, if any; the sum is an \<open>unsigned long\<close>. \<open>zmap_ip_checksum\<close> reads the 20
  bytes of the header as ten words.
\<close>

definition in_checksum :: "u16 list \<Rightarrow> u8 option \<Rightarrow> u16" where
  "in_checksum ws last_byte =
     (let sum = foldl (\<lambda>s w. s + ucast w) (0 :: u64) ws;
          sum = (case last_byte of None \<Rightarrow> sum | Some b \<Rightarrow> sum + ucast b);
          sum = drop_bit 16 sum + (sum AND 0xffff)
      in ucast (NOT sum))"

definition le16 :: "u8 \<Rightarrow> u8 \<Rightarrow> u16" where
  "le16 b0 b1 = ucast b0 OR push_bit 8 (ucast b1)"

definition ip_hdr_words :: "ip_hdr \<Rightarrow> u16 list" where
  "ip_hdr_words h =
     [le16 (push_bit 4 (ucast (ip_v h)) OR ucast (ip_hl h)) (ip_tos h),
      ip_len h, ip_id h, ip_off h, le16 (ip_ttl h) (ip_p h), ip_sum h,
      ucast (ip_src h), ucast (drop_bit 16 (ip_src h)),
      ucast (ip_dst h), ucast (drop_bit 16 (ip_dst h))]"

definition zmap_ip_checksum :: "ip_hdr \<Rightarrow> u16" where
  "zmap_ip_checksum h = in_checksum (ip_hdr_words h) None"

text \<open>
  \<open>memcpy(dst + off, src, n)\<close> on a buffer held as a list of bytes; the callers keep
  \<open>off + n\<close> within the buffer.
\<close>

definition memcpy :: "u8 list \<Rightarrow> nat \<Rightarrow> u8 list \<Rightarrow> nat \<Rightarrow> u8 list" where
  "memcpy dst off src n = take off dst @ take n src @ drop (off + n) dst"

subsection \<open>Captured packets\<close>

text \<open>
  A captured packet is the list of its bytes, and a pointer into it is an offset.
  \<open>struct ip\<close>: the header length is the low nibble of byte 0, the identification is at
  bytes 4 and 5, the TTL at byte 8, the protocol at byte 9, the source address at bytes
  12 to 15 and the destination at bytes 16 to 19. \<open>struct icmp\<close>: type and code are
  bytes 0 and 1. A 32-bit address is read in host order from its four bytes.
\<close>

definition rd16 :: "u8 list \<Rightarrow> nat \<Rightarrow> u16" where
  "rd16 p i = le16 (p ! i) (p ! (i + 1))"

definition rd32 :: "u8 list \<Rightarrow> nat \<Rightarrow> u32" where
  "rd32 p i = ucast (p ! i) OR push_bit 8 (ucast (p ! (i + 1)))
                OR push_bit 16 (ucast (p ! (i + 2))) OR push_bit 24 (ucast (p ! (i + 3)))"

definition pkt_ip_hl :: "u8 list \<Rightarrow> nat \<Rightarrow> u8" where
  "pkt_ip_hl p ip = p ! ip AND 0x0F"

definition pkt_ip_id :: "u8 list \<Rightarrow> nat \<Rightarrow> u16" where
  "pkt_ip_id p ip = rd16 p (ip + 4)"

definition pkt_ip_ttl :: "u8 list \<Rightarrow> nat \<Rightarrow> u8" where
  "pkt_ip_ttl p ip = p ! (ip + 8)"

definition pkt_ip_p :: "u8 list \<Rightarrow> nat \<Rightarrow> u8" where
  "pkt_ip_p p ip = p ! (ip + 9)"

definition pkt_ip_src :: "u8 list \<Rightarrow> nat \<Rightarrow> u32" where
  "pkt_ip_src p ip = rd32 p (ip + 12)"

definition pkt_ip_dst :: "u8 list \<Rightarrow> nat \<Rightarrow> u32" where
  "pkt_ip_dst p ip = rd32 p (ip + 16)"

definition pkt_icmp_type :: "u8 list \<Rightarrow> nat \<Rightarrow> u8" where
  "pkt_icmp_type p icmp = p ! icmp"

definition pkt_icmp_code :: "u8 list \<Rightarrow> nat \<Rightarrow> u8" where
  "pkt_icmp_code p icmp = p ! (icmp + 1)"

definition PACKET_VALID :: int where "PACKET_VALID = 1"
definition PACKET_INVALID :: int where "PACKET_INVALID = 0"
definition ICMP_HEADER_SIZE :: nat where "ICMP_HEADER_SIZE = 8"
definition ICMP_UNREACH_HEADER_SIZE :: nat where "ICMP_UNREACH_HEADER_SIZE = 8"
definition sizeof_ether_header :: nat where "sizeof_ether_header = 14"
definition sizeof_ip :: nat where "sizeof_ip = 20"
definition sizeof_udphdr :: nat where "sizeof_udphdr = 8"
definition sizeof_icmp :: nat where "sizeof_icmp = 28"
definition ICMP_UNREACH :: u8 where "ICMP_UNREACH = 3"
definition ICMP_SOURCEQUENCH :: u8 where "ICMP_SOURCEQUENCH = 4"
definition ICMP_REDIRECT :: u8 where "ICMP_REDIRECT = 5"
definition ICMP_TIMXCEED :: u8 where "ICMP_TIMXCEED = 11"
definition ICMP_UNREACH_PRECEDENCE_CUTOFF :: u8 where "ICMP_UNREACH_PRECEDENCE_CUTOFF = 15"

text \<open>
  \<open>icmp_helper_validate\<close>: \<open>p\<close> holds the bytes from the outer IP header on and \<open>len\<close>
  is their number as the caller passes it. A failed \<open>assert\<close> ends the process. The
  out-parameters \<open>*probe_pkt\<close> (an offset into \<open>p\<close>) and \<open>*probe_len\<close> come in with the
  values the caller's variables hold and go out with them unless the function assigns
  them. \<open>min_len\<close> is a \<open>uint32_t\<close> that receives a \<open>size_t\<close> sum, and
  \<open>len - (4 * ip_hl + ICMP_HEADER_SIZE)\<close> is an \<open>unsigned int\<close> widened to \<open>size_t\<close>.
\<close>

definition icmp_helper_validate ::
  "(u32 \<Rightarrow> bool) \<Rightarrow> u8 list \<Rightarrow> u32 \<Rightarrow> u64 \<Rightarrow> nat \<Rightarrow> u64 \<Rightarrow> fatal + (int \<times> nat \<times> u64)" where
  "icmp_helper_validate blocklist_is_allowed p len min_l4_len probe_pkt probe_len =
     (if pkt_ip_p p 0 \<noteq> IPPROTO_ICMP then
        Inl (''assert'', ''ip_hdr->ip_p == IPPROTO_ICMP'')
      else
      let min_len = (ucast (4 * (ucast (pkt_ip_hl p 0) :: u64) + of_nat ICMP_HEADER_SIZE
                              + of_nat sizeof_ip + min_l4_len) :: u32) in
      if len < min_len then Inr (PACKET_INVALID, probe_pkt, probe_len)
      else
      let icmp = 4 * unat (pkt_ip_hl p 0) in
      if \<not> (pkt_icmp_type p icmp = ICMP_UNREACH \<or>
             pkt_icmp_type p icmp = ICMP_SOURCEQUENCH \<or>
             pkt_icmp_type p icmp = ICMP_REDIRECT \<or>
             pkt_icmp_type p icmp = ICMP_TIMXCEED) then
        Inr (PACKET_INVALID, probe_pkt, probe_len)
      else
      let ip_inner = icmp + ICMP_HEADER_SIZE;
          inner_packet_len =
            (ucast (len - (4 * (ucast (pkt_ip_hl p 0) :: u32) + of_nat ICMP_HEADER_SIZE)) :: u64)
      in
      if inner_packet_len < 4 * ucast (pkt_ip_hl p ip_inner) + min_l4_len then
        Inr (PACKET_INVALID, probe_pkt, probe_len)
      else
      let dest = pkt_ip_dst p ip_inner in
      if \<not> blocklist_is_allowed dest then Inr (PACKET_INVALID, probe_pkt, probe_len)
      else Inr (PACKET_VALID, ip_inner, inner_packet_len))"

subsection \<open>Addresses as text\<close>

text \<open>
  \<open>inet_ntoa\<close> prints the four bytes of an address, in the order they lie in memory,
  in decimal with dots between them. \<open>strsep\<close> with the delimiter \<open>"."\<close> cuts that
  text at every dot; \<open>atoi\<close> reads the leading decimal digits of a token; \<open>sprintf\<close>
  with \<open>%03d\<close> prints a number that is not negative with at least three digits and
  ends it with a NUL byte.
\<close>

definition octet :: "u32 \<Rightarrow> nat \<Rightarrow> u8" where
  "octet a k = ucast (drop_bit (8 * k) a)"

definition digit_char :: "nat \<Rightarrow> char" where
  "digit_char d = char_of (48 + d)"

fun dec :: "nat \<Rightarrow> string" where
  "dec n = (if n < 10 then [digit_char n] else dec (n div 10) @ [digit_char (n mod 10)])"

declare dec.simps [simp del]

definition inet_ntoa :: "u32 \<Rightarrow> string" where
  "inet_ntoa a = dec (unat (octet a 0)) @ ''.'' @ dec (unat (octet a 1)) @ ''.'' @
                 dec (unat (octet a 2)) @ ''.'' @ dec (unat (octet a 3))"

definition make_ip_str :: "u32 \<Rightarrow> string" where
  "make_ip_str a = inet_ntoa a"

fun strsep_dot :: "string \<Rightarrow> string list" where
  "strsep_dot [] = [[]]"
| "strsep_dot (c # cs) =
     (if c = CHR ''.'' then [] # strsep_dot cs
      else (case strsep_dot cs of [] \<Rightarrow> [[c]] | t # ts \<Rightarrow> (c # t) # ts))"

definition is_digit :: "char \<Rightarrow> bool" where
  "is_digit c = (48 \<le> (of_char c :: nat) \<and> (of_char c :: nat) \<le> 57)"

definition atoi :: "string \<Rightarrow> nat" where
  "atoi s = foldl (\<lambda>a c. a * 10 + (of_char c - 48)) 0 (takeWhile is_digit s)"

definition sprintf_03d :: "nat \<Rightarrow> u8 list" where
  "sprintf_03d n = map of_char (replicate (3 - length (dec n)) (CHR ''0'') @ dec n) @ [0]"

text \<open>
  \<open>make_ip_strinqname\<close>: the buffer of \<open>16 + 1\<close> bytes comes zeroed from \<open>xmalloc\<close>;
  each token writes the byte \<open>0x03\<close> at \<open>count * 4\<close> and its three digits, with the NUL
  of \<open>sprintf\<close>, from \<open>count * 4 + 1\<close> on.
\<close>

definition strinqname_step :: "u8 list \<times> nat \<Rightarrow> string \<Rightarrow> u8 list \<times> nat" where
  "strinqname_step rc p =
     (let (retv, count) = rc;
          retv = memcpy retv (count * 4) [0x03] 1;
          tmpint = atoi p;
          s = sprintf_03d tmpint;
          retv = memcpy retv (count * 4 + 1) s (length s)
      in (retv, count + 1))"

definition make_ip_strinqname :: "u32 \<Rightarrow> u8 list" where
  "make_ip_strinqname a =
     fst (foldl strinqname_step (replicate (16 + 1) 0, 0) (strsep_dot (inet_ntoa a)))"

subsection \<open>Two inputs\<close>

text \<open>
  Seven source ports and five probes per target; and an ICMP port-unreachable message
  from 9.9.9.9 to the scanner at 10.0.0.1 that embeds the IP and UDP headers of a probe
  sent to 1.2.3.4, port 53 (56 bytes from the outer IP header on, after an Ethernet
  header of 14 bytes).
\<close>

definition seven_ports_conf :: state_conf where
  "seven_ports_conf = default_conf\<lparr>source_port_first := 32768, source_port_last := 32774,
     packet_streams := 5\<rparr>"

definition icmp_unreach_ip :: "u8 list" where
  "icmp_unreach_ip =
     [0x45, 0x00, 0x00, 0x38, 0x00, 0x00, 0x00, 0x00, 0x40, 0x01, 0x00, 0x00,
      0x09, 0x09, 0x09, 0x09, 0x0A, 0x00, 0x00, 0x01,
      0x03, 0x03, 0x00, 0x00, 0x00, 0x00, 0x00, 0x00,
      0x45, 0x00, 0x00, 0x3A, 0x12, 0x34, 0x00, 0x00, 0xFF, 0x11, 0x00, 0x00,
      0x0A, 0x00, 0x00, 0x01, 0x01, 0x02, 0x03, 0x04,
      0x80, 0x05, 0x00, 0x35, 0x00, 0x26, 0x00, 0x00]"

definition icmp_unreach_frame :: "u8 list" where
  "icmp_unreach_frame =
     [0x02, 0x00, 0x00, 0x00, 0x00, 0x01, 0x02, 0x00, 0x00, 0x00, 0x00, 0x02, 0x08, 0x00]
     @ icmp_unreach_ip"

section \<open>Field sets\<close>

text \<open>
  Modelled from the spec: \<open>fieldset.c\<close> is not among the sources. A response record is
  the ordered list of its named fields (spec, 3 and 4.6); \<open>fs_add_*\<close> appends a field
  and \<open>fs_modify_string\<close> replaces the value of the first field of that name (the
  spec's ``\<open>saddr\<close> fixed up''), appending the field when there is none.
\<close>

datatype field_val =
    FS_STRING string
  | FS_UINT64 u64
  | FS_BOOL bool
  | FS_BINARY "u8 list"
  | FS_NULL

type_synonym fieldset_t = "(string \<times> field_val) list"

definition fs_add_string :: "fieldset_t \<Rightarrow> string \<Rightarrow> string \<Rightarrow> fieldset_t" where
  "fs_add_string fs name v = fs @ [(name, FS_STRING v)]"

definition fs_add_constchar :: "fieldset_t \<Rightarrow> string \<Rightarrow> string \<Rightarrow> fieldset_t" where
  "fs_add_constchar fs name v = fs @ [(name, FS_STRING v)]"

definition fs_add_uint64 :: "fieldset_t \<Rightarrow> string \<Rightarrow> u64 \<Rightarrow> fieldset_t" where
  "fs_add_uint64 fs name v = fs @ [(name, FS_UINT64 v)]"

definition fs_add_bool :: "fieldset_t \<Rightarrow> string \<Rightarrow> bool \<Rightarrow> fieldset_t" where
  "fs_add_bool fs name v = fs @ [(name, FS_BOOL v)]"

definition fs_add_binary :: "fieldset_t \<Rightarrow> string \<Rightarrow> u8 list \<Rightarrow> fieldset_t" where
  "fs_add_binary fs name v = fs @ [(name, FS_BINARY v)]"

definition fs_add_null :: "fieldset_t \<Rightarrow> string \<Rightarrow> fieldset_t" where
  "fs_add_null fs name = fs @ [(name, FS_NULL)]"

fun fs_modify_string :: "fieldset_t \<Rightarrow> string \<Rightarrow> string \<Rightarrow> fieldset_t" where
  "fs_modify_string [] name v = [(name, FS_STRING v)]"
| "fs_modify_string ((n, x) # fs) name v =
     (if n = name then (n, FS_STRING v) # fs else (n, x) # fs_modify_string fs name v)"

definition fs_get :: "fieldset_t \<Rightarrow> string \<Rightarrow> field_val option" where
  "fs_get fs name = map_of fs name"

section \<open>probe\_modules/packet.c: ICMP fields of a record\<close>

definition fs_add_null_icmp :: "fieldset_t \<Rightarrow> fieldset_t" where
  "fs_add_null_icmp fs =
     (let fs = fs_add_null fs ''icmp_responder'';
          fs = fs_add_null fs ''icmp_type'';
          fs = fs_add_null fs ''icmp_code''
      in fs_add_null fs ''icmp_unreach_str'')"

definition icmp_unreach_strings :: "string list" where
  "icmp_unreach_strings =
     [''network unreachable'', ''host unreachable'',
      ''protocol unreachable'', ''port unreachable'',
      ''fragments required'', ''source route failed'',
      ''network unknown'', ''host unknown'',
      ''source host isolated'', ''network admin. prohibited'',
      ''host admin. prohibited'', ''network unreachable TOS'',
      ''host unreachable TOS'', ''communication admin. prohibited'',
      ''host presdence violation'', ''precedence cutoff'']"

text \<open>
  The header accessors of packet.h on a captured frame \<open>p\<close>: a header is the offset
  where it starts, \<open>None\<close> stands for \<open>NULL\<close>, and \<open>len\<close> is the length the caller
  passes on.
\<close>

definition get_udp_header :: "u8 list \<Rightarrow> nat \<Rightarrow> u32 \<Rightarrow> nat option" where
  "get_udp_header p ip_hdr len =
     (if 4 * unat (pkt_ip_hl p ip_hdr) + sizeof_udphdr > unat len then None
      else Some (ip_hdr + 4 * unat (pkt_ip_hl p ip_hdr)))"

definition get_icmp_header :: "u8 list \<Rightarrow> nat \<Rightarrow> u64 \<Rightarrow> nat option" where
  "get_icmp_header p ip_hdr len =
     (if 4 * unat (pkt_ip_hl p ip_hdr) + sizeof_icmp > unat (ucast len :: u32) then None
      else Some (ip_hdr + 4 * unat (pkt_ip_hl p ip_hdr)))"

definition get_inner_ip_header :: "u8 list \<Rightarrow> nat \<Rightarrow> u64 \<Rightarrow> nat option" where
  "get_inner_ip_header p icmp len =
     (if unat (ucast len :: u32) < ICMP_UNREACH_HEADER_SIZE + sizeof_ip then None
      else Some (icmp + ICMP_UNREACH_HEADER_SIZE))"

definition fs_populate_icmp_from_iphdr ::
  "u8 list \<Rightarrow> nat \<Rightarrow> u64 \<Rightarrow> fieldset_t \<Rightarrow> fatal + fieldset_t" where
  "fs_populate_icmp_from_iphdr p ip len fs =
     (case get_icmp_header p ip len of
        None \<Rightarrow> Inl (''assert'', ''icmp'')
      | Some icmp \<Rightarrow>
         (case get_inner_ip_header p icmp len of
            None \<Rightarrow> Inl (''signal'', ''ip_inner is NULL'')
          | Some ip_inner \<Rightarrow>
             let fs = fs_modify_string fs ''saddr'' (make_ip_str (pkt_ip_dst p ip_inner));
                 fs = fs_add_string fs ''icmp_responder'' (make_ip_str (pkt_ip_src p ip));
                 fs = fs_add_uint64 fs ''icmp_type'' (ucast (pkt_icmp_type p icmp));
                 fs = fs_add_uint64 fs ''icmp_code'' (ucast (pkt_icmp_code p icmp))
             in if pkt_icmp_code p icmp \<le> ICMP_UNREACH_PRECEDENCE_CUTOFF then
                  Inr (fs_add_constchar fs ''icmp_unreach_str''
                         (icmp_unreach_strings ! unat (pkt_icmp_code p icmp)))
                else Inr (fs_add_constchar fs ''icmp_unreach_str'' ''unknown'')))"

section \<open>probe\_modules/probe\_modules.c: the address fields of a record\<close>

definition fs_add_ip_fields :: "fieldset_t \<Rightarrow> u8 list \<Rightarrow> nat \<Rightarrow> fieldset_t" where
  "fs_add_ip_fields fs p ip =
     (let fs = fs_add_string fs ''saddr'' (make_ip_str (pkt_ip_src p ip));
          fs = fs_add_uint64 fs ''saddr_raw'' (ucast (pkt_ip_src p ip));
          fs = fs_add_string fs ''daddr'' (make_ip_str (pkt_ip_dst p ip));
          fs = fs_add_uint64 fs ''daddr_raw'' (ucast (pkt_ip_dst p ip));
          fs = fs_add_uint64 fs ''ipid'' (ucast (ntohs (pkt_ip_id p ip)))
      in fs_add_uint64 fs ''ttl'' (ucast (pkt_ip_ttl p ip)))"

section \<open>probe\_modules/module\_dns.c\<close>

subsection \<open>The questions and their packets\<close>

definition DNS_PAYLOAD_LEN_LIMIT :: nat where "DNS_PAYLOAD_LEN_LIMIT = 512"
definition MAX_PACKET_SIZE :: nat where "MAX_PACKET_SIZE = 4096"
definition sizeof_dns_header :: nat where "sizeof_dns_header = 12"
definition sizeof_dns_question_tail :: nat where "sizeof_dns_question_tail = 4"
definition DNS_QTYPE_A :: u16 where "DNS_QTYPE_A = 1"
definition DNS_QTYPE_AAAA :: u16 where "DNS_QTYPE_AAAA = 28"
definition DNS_QR_ANSWER :: u8 where "DNS_QR_ANSWER = 1"
definition DNS_RCODE_NOERR :: u8 where "DNS_RCODE_NOERR = 0"

text \<open>
  The module's globals. \<open>dns_header\<close> (module\_dns.h) is the 12 bytes of a DNS header:
  the id at bytes 0 and 1; byte 2 holds the bit fields \<open>rd\<close> (bit 0), \<open>tc\<close>, \<open>aa\<close>,
  \<open>opcode\<close> and \<open>qr\<close> (bit 7); byte 3 holds \<open>rcode\<close> (bits 0 to 3), \<open>cd\<close>, \<open>ad\<close>, \<open>z\<close> and
  \<open>ra\<close>; then the four counts. A \<open>dns_question_tail\<close> is \<open>qtype\<close> and \<open>qclass\<close>, two
  bytes each. \<open>xmalloc\<close> returns zeroed memory.
\<close>

record dns_module =
  num_questions :: nat
  dns_packets :: "u8 list list"
  dns_packet_lens :: "u16 list"
  qname_lens :: "u16 list"
  qnames :: "u8 list list"
  qtypes :: "u16 list"
  rdbits :: "u8 list"
  num_ports :: u32

text \<open>
  \<open>domain_to_qname\<close>: a dot is put before the domain, a NUL after it, and every dot is
  replaced by the number of bytes up to the next dot (or to the end of the domain).
  \<open>build_global_dns_packets\<close> copies \<open>qname_lens[i]\<close> bytes of the name between the
  header and the tail of the packet for question \<open>i\<close>.
\<close>

fun qname_labels :: "string \<Rightarrow> u8 list" where
  "qname_labels [] = []"
| "qname_labels (c # cs) =
     (if c = CHR ''.'' then of_nat (length (takeWhile (\<lambda>d. d \<noteq> CHR ''.'') cs))
      else of_char c) # qname_labels cs"

definition domain_to_qname :: "string \<Rightarrow> u8 list \<times> u16" where
  "domain_to_qname domain =
     (qname_labels (CHR ''.'' # domain) @ [0], of_nat (length domain + 1 + 1))"

definition bytes_of_be16 :: "u16 \<Rightarrow> u8 list" where
  "bytes_of_be16 x = [ucast (drop_bit 8 x), ucast x]"

definition bytes_of_host16 :: "u16 \<Rightarrow> u8 list" where
  "bytes_of_host16 x = [ucast x, ucast (drop_bit 8 x)]"

definition dns_query_bytes :: "u8 \<Rightarrow> u8 list \<Rightarrow> u16 \<Rightarrow> u16 \<Rightarrow> u8 list" where
  "dns_query_bytes rdbit qname qname_len qtype =
     [0, 0, rdbit AND 1, 0] @ bytes_of_host16 (htons 1) @ [0, 0, 0, 0, 0, 0]
     @ take (unat qname_len) qname
     @ bytes_of_host16 (htons qtype) @ bytes_of_host16 (htons 0x01)"

fun build_global_dns_packets ::
  "dns_module \<Rightarrow> string list \<Rightarrow> nat \<Rightarrow> fatal + dns_module" where
  "build_global_dns_packets m [] i = Inr m"
| "build_global_dns_packets m (domain # domains) i =
     (let (qname, qname_len) = domain_to_qname domain;
          len = (of_nat (sizeof_dns_header + unat qname_len + sizeof_dns_question_tail) :: u16)
      in if unat len > DNS_PAYLOAD_LEN_LIMIT then
           log_fatal ''dns'' ''DNS packet bigger (%d) than our limit (%d)''
         else
           build_global_dns_packets
             (m\<lparr>qname_lens := qname_lens m @ [qname_len],
                qnames := qnames m @ [qname],
                dns_packet_lens := dns_packet_lens m @ [len],
                dns_packets := dns_packets m @
                  [dns_query_bytes (rdbits m ! i) qname qname_len (qtypes m ! i)]\<rparr>)
             domains (i + 1))"

text \<open>
  The state \<open>dns_global_initialize\<close> leaves. Its argument is what the loop over
  \<open>--probe-args\<close> has read when it accepts every question: for each one the code of
  the query type, the domain and the recursion bit (\<open>default_rdbit\<close>, or 0 after
  \<open>:nr\<close>). With no question the default question is installed. The number of probes
  per target must be a multiple of the number of questions (of the message of this
  \<open>log_fatal\<close> the first sentence is kept). \<open>num_ports\<close> is computed in \<open>int\<close>,
  from the two ports promoted.
\<close>

definition default_domain :: string where "default_domain = ''www.google.com''"
definition default_qtype :: u16 where "default_qtype = DNS_QTYPE_A"
definition default_rdbit :: u8 where "default_rdbit = 0xFF"

definition dns_global_state ::
  "state_conf \<Rightarrow> (u16 \<times> string \<times> u8) list \<Rightarrow> fatal + dns_module" where
  "dns_global_state zc questions =
     (let questions =
            (if questions = [] then [(default_qtype, default_domain, default_rdbit)]
             else questions)
      in if sint (packet_streams zc) mod int (length questions) \<noteq> 0 then
           log_fatal ''dns''
             ''number of probes (%d) must be a multiple of the number of DNS questions (%d).''
         else
           build_global_dns_packets
             \<lparr>num_questions = length questions, dns_packets = [], dns_packet_lens = [],
              qname_lens = [], qnames = [], qtypes = map fst questions,
              rdbits = map (\<lambda>q. snd (snd q)) questions,
              num_ports = ucast (source_port_last zc) - ucast (source_port_first zc) + 1\<rparr>
             (map (\<lambda>q. fst (snd q)) questions) 0)"

subsection \<open>Building a probe\<close>

text \<open>
  A probe buffer of the module: the Ethernet, IP and UDP headers, and the bytes that
  follow them (the DNS message and the rest of the buffer), so that the DNS header is
  at \<open>payload\<close> offset 0 and \<open>buf + 54\<close> at \<open>payload\<close> offset 12.
\<close>

record packet =
  eth_header :: ether_header
  ip_header :: ip_hdr
  udp_header :: udphdr
  payload :: "u8 list"

definition zero_packet :: packet where
  "zero_packet =
     \<lparr>eth_header = \<lparr>ether_dhost = replicate 6 0, ether_shost = replicate 6 0, ether_type = 0\<rparr>,
      ip_header = \<lparr>ip_hl = 0, ip_v = 0, ip_tos = 0, ip_len = 0, ip_id = 0, ip_off = 0,
                   ip_ttl = 0, ip_p = 0, ip_sum = 0, ip_src = 0, ip_dst = 0\<rparr>,
      udp_header = \<lparr>uh_sport = 0, uh_dport = 0, uh_ulen = 0, uh_sum = 0\<rparr>,
      payload = replicate (MAX_PACKET_SIZE - 42) 0\<rparr>"

definition dns_prepare_packet :: "dns_module \<Rightarrow> packet \<Rightarrow> u8 list \<Rightarrow> u8 list \<Rightarrow> int \<times> packet" where
  "dns_prepare_packet m buf src gw =
     (let buf = zero_packet;
          eth = make_eth_header (eth_header buf) src gw;
          len = htons (of_nat sizeof_ip + of_nat sizeof_udphdr + dns_packet_lens m ! 0);
          iph = make_ip_header (ip_header buf) IPPROTO_UDP len;
          len = of_nat sizeof_udphdr + dns_packet_lens m ! 0;
          udp = make_udp_header (udp_header buf) len;
          pl = memcpy (payload buf) 0 (dns_packets m ! 0) (unat (dns_packet_lens m ! 0))
      in (0, buf\<lparr>eth_header := eth, ip_header := iph, udp_header := udp, payload := pl\<rparr>))"

definition get_dns_question_index_by_probe_num :: "dns_module \<Rightarrow> u32 \<Rightarrow> fatal + nat" where
  "get_dns_question_index_by_probe_num m probe_num =
     (if sint probe_num < 0 then Inl (''assert'', ''probe_num >= 0'')
      else Inr (unat probe_num mod num_questions m))"

text \<open>
  \<open>dns_make_packet\<close>: \<open>buf_len\<close> is the value \<open>*buf_len\<close> has on entry (\<open>send_run\<close> passes
  0) and \<open>ipid\<close> the parameter \<open>ip_id\<close>. The log lines at the end of the function write nothing to the packet.
\<close>

definition dns_make_packet ::
  "state_conf \<Rightarrow> dns_module \<Rightarrow> packet \<Rightarrow> u64 \<Rightarrow> u32 \<Rightarrow> u32 \<Rightarrow> u16 \<Rightarrow> u8 \<Rightarrow> u32 list \<Rightarrow> u32 \<Rightarrow>
     u16 \<Rightarrow> fatal + (packet \<times> u64)" where
  "dns_make_packet zc m buf buf_len src_ip dst_ip dport ttl validation probe_num ipid =
     (case (if num_questions m > 0 then
              (case get_dns_question_index_by_probe_num m probe_num of
                 Inl e \<Rightarrow> Inl e
               | Inr dns_index \<Rightarrow>
                  let encoded_len = htons (of_nat sizeof_ip + of_nat sizeof_udphdr
                                            + dns_packet_lens m ! dns_index);
                      iph = make_ip_header (ip_header buf) IPPROTO_UDP encoded_len;
                      encoded_len = of_nat sizeof_udphdr + dns_packet_lens m ! dns_index;
                      udp = make_udp_header (udp_header buf) encoded_len;
                      buf_len = (of_nat (sizeof_ether_header + sizeof_ip + sizeof_udphdr)
                                  + ucast (dns_packet_lens m ! dns_index) :: u64)
                  in if \<not> unat buf_len \<le> MAX_PACKET_SIZE then
                       Inl (''assert'', ''*buf_len <= MAX_PACKET_SIZE'')
                     else
                       Inr (buf\<lparr>ip_header := iph, udp_header := udp,
                                 payload := memcpy (payload buf) 0 (dns_packets m ! dns_index)
                                              (unat (dns_packet_lens m ! dns_index))\<rparr>,
                            buf_len))
            else Inr (buf, buf_len)) of
        Inl e \<Rightarrow> Inl e
      | Inr (buf, buf_len) \<Rightarrow>
         let iph = (ip_header buf)\<lparr>ip_src := src_ip, ip_dst := dst_ip, ip_ttl := ttl,
                                   ip_id := ipid\<rparr>;
             udp = (udp_header buf)
                     \<lparr>uh_sport := htons (get_src_port zc (num_ports m) probe_num validation),
                      uh_dport := dport\<rparr>;
             pl = memcpy (payload buf) 0
                    (bytes_of_host16 (ucast (validation ! 2 AND 0xFFFF))) 2;
             iph = iph\<lparr>ip_sum := 0\<rparr>;
             iph = iph\<lparr>ip_sum := zmap_ip_checksum iph\<rparr>;
             pl = (if dnsippadding zc then memcpy pl (54 - 42) (make_ip_strinqname dst_ip) 16
                   else pl)
         in Inr (buf\<lparr>ip_header := iph, udp_header := udp, payload := pl\<rparr>, buf_len))"

subsection \<open>Reading a response\<close>

text \<open>
  \<open>strcmp(a + i, b + j) == 0\<close> on two byte buffers: the bytes up to the first NUL are
  the same.
\<close>

definition c_str :: "u8 list \<Rightarrow> nat \<Rightarrow> u8 list" where
  "c_str p i = takeWhile (\<lambda>b. b \<noteq> 0) (drop i p)"

definition strcmp_eq :: "u8 list \<Rightarrow> nat \<Rightarrow> u8 list \<Rightarrow> nat \<Rightarrow> bool" where
  "strcmp_eq a i b j = (c_str a i = c_str b j)"

text \<open>
  The loop over the questions in \<open>dns_process_packet\<close> (lines 997 to 1029), from
  question \<open>i\<close> on: it returns \<open>match\<close> and \<open>is_valid\<close>. \<open>p\<close> is the captured frame and
  \<open>dns_header_p\<close> the offset of its DNS header. \<open>tail_p\<close> points into the module's own
  packet \<open>dns_packets[i]\<close>.
\<close>

fun dns_match_questions ::
  "state_conf \<Rightarrow> dns_module \<Rightarrow> u8 list \<Rightarrow> nat \<Rightarrow> u16 \<Rightarrow> u32 list \<Rightarrow> nat list \<Rightarrow> nat \<Rightarrow> nat \<times> bool" where
  "dns_match_questions zc m p dns_header_p udp_len validation [] match = (match, False)"
| "dns_match_questions zc m p dns_header_p udp_len validation (i # is) match =
     (if udp_len < dns_packet_lens m ! i then
        dns_match_questions zc m p dns_header_p udp_len validation is match
      else
        let match = match + 1;
            qname_p = dns_header_p + sizeof_dns_header;
            tail_p = sizeof_dns_header + unat (qname_lens m ! i);
            offset = (if dnsippadding zc then 16 else 0)
        in if (ucast (rd16 p dns_header_p) :: u32) = validation ! 2 AND 0xFFFF \<and>
              strcmp_eq (qnames m ! i) offset p (qname_p + offset) \<and>
              rd16 (dns_packets m ! i) tail_p = htons (qtypes m ! i) \<and>
              rd16 (dns_packets m ! i) (tail_p + 2) = htons 0x01
           then (match, True)
           else dns_match_questions zc m p dns_header_p udp_len validation is match)"

text \<open>
  \<open>dns_process_packet\<close> up to the field \<open>udp_len\<close>. The fields that follow (the DNS
  header, the parsed sections and the raw data) are appended after these and change
  none of them.
\<close>

definition dns_process_packet ::
  "state_conf \<Rightarrow> dns_module \<Rightarrow> u8 list \<Rightarrow> u32 \<Rightarrow> fieldset_t \<Rightarrow> u32 list \<Rightarrow> fatal + fieldset_t" where
  "dns_process_packet zc m packet len fs validation =
     (let ip_hdr = sizeof_ether_header in
      if pkt_ip_p packet ip_hdr = IPPROTO_UDP then
        (case get_udp_header packet ip_hdr len of
           None \<Rightarrow> Inl (''assert'', ''udp_hdr'')
         | Some udp_hdr \<Rightarrow>
            let udp_len = ntohs (rd16 packet (udp_hdr + 4));
                dns_hdr = udp_hdr + sizeof_udphdr;
                (match, is_valid) =
                   dns_match_questions zc m packet dns_hdr udp_len validation
                     [0 ..< num_questions m] 0
            in if \<not> match > 0 then Inl (''assert'', ''match > 0'')
               else
                 let qr = drop_bit 7 (packet ! (dns_hdr + 2));
                     rcode = packet ! (dns_hdr + 3) AND 0x0F;
                     fs = fs_add_uint64 fs ''sport'' (ucast (ntohs (rd16 packet udp_hdr)));
                     fs = fs_add_uint64 fs ''dport'' (ucast (ntohs (rd16 packet (udp_hdr + 2))));
                     fs = fs_add_string fs ''classification'' ''dns'';
                     fs = fs_add_bool fs ''success'' is_valid;
                     fs = fs_add_bool fs ''app_success''
                            (is_valid \<and> qr = DNS_QR_ANSWER \<and> rcode = DNS_RCODE_NOERR);
                     fs = fs_add_null_icmp fs
                 in Inr (fs_add_uint64 fs ''udp_len'' (ucast udp_len)))
      else if pkt_ip_p packet ip_hdr = IPPROTO_ICMP then
        (let fs = fs_add_null fs ''sport'';
             fs = fs_add_null fs ''dport'';
             fs = fs_add_constchar fs ''classification'' ''icmp'';
             fs = fs_add_bool fs ''success'' False;
             fs = fs_add_bool fs ''app_success'' False
         in case fs_populate_icmp_from_iphdr packet ip_hdr (ucast len) fs of
              Inl e \<Rightarrow> Inl e
            | Inr fs \<Rightarrow> Inr (fs_add_null fs ''udp_len''))
      else
        log_fatal ''dns''
          ''Die. This can only happen if you change the pcap filter and don't update the process function.'')"

section \<open>probe\_modules/module\_ipv6\_udp.c: reading a response\<close>

text \<open>
  An IPv6 header has 40 bytes: the payload length at bytes 4 and 5, the next header at
  byte 6, the hop limit at byte 7, the source address at bytes 8 to 23 and the
  destination at bytes 24 to 39. An ICMPv6 header has 8 bytes, type and code first.
  \<open>make_ipv6_str\<close> is \<open>inet_ntop\<close>, taken as the parameter \<open>ntop\<close>. The function makes
  no check of the captured length before it reads the embedded header.
\<close>

definition sizeof_ip6_hdr :: nat where "sizeof_ip6_hdr = 40"
definition sizeof_icmp6_hdr :: nat where "sizeof_icmp6_hdr = 8"

definition pkt_ip6_plen :: "u8 list \<Rightarrow> nat \<Rightarrow> u16" where
  "pkt_ip6_plen p ip6 = rd16 p (ip6 + 4)"

definition pkt_ip6_nxt :: "u8 list \<Rightarrow> nat \<Rightarrow> u8" where
  "pkt_ip6_nxt p ip6 = p ! (ip6 + 6)"

definition pkt_ip6_hlim :: "u8 list \<Rightarrow> nat \<Rightarrow> u8" where
  "pkt_ip6_hlim p ip6 = p ! (ip6 + 7)"

definition pkt_ip6_src :: "u8 list \<Rightarrow> nat \<Rightarrow> u8 list" where
  "pkt_ip6_src p ip6 = take 16 (drop (ip6 + 8) p)"

definition pkt_ip6_dst :: "u8 list \<Rightarrow> nat \<Rightarrow> u8 list" where
  "pkt_ip6_dst p ip6 = take 16 (drop (ip6 + 24) p)"

definition fs_add_ipv6_fields ::
  "(u8 list \<Rightarrow> string) \<Rightarrow> fieldset_t \<Rightarrow> u8 list \<Rightarrow> nat \<Rightarrow> fieldset_t" where
  "fs_add_ipv6_fields ntop fs p ipv6_hdr =
     (let fs = fs_add_string fs ''saddr'' (ntop (pkt_ip6_src p ipv6_hdr));
          fs = fs_add_uint64 fs ''saddr_raw'' 0;
          fs = fs_add_string fs ''daddr'' (ntop (pkt_ip6_dst p ipv6_hdr));
          fs = fs_add_uint64 fs ''daddr_raw'' 0;
          fs = fs_add_uint64 fs ''ipid'' 0
      in fs_add_uint64 fs ''ttl'' (ucast (pkt_ip6_hlim p ipv6_hdr)))"

definition ipv6_udp_process_packet ::
  "(u8 list \<Rightarrow> string) \<Rightarrow> u8 list \<Rightarrow> u32 \<Rightarrow> fieldset_t \<Rightarrow> fieldset_t" where
  "ipv6_udp_process_packet ntop packet caplen fs =
     (let ipv6_hdr = sizeof_ether_header in
      if pkt_ip6_nxt packet ipv6_hdr = IPPROTO_UDP then
        (let udp = ipv6_hdr + sizeof_ip6_hdr;
             fs = fs_add_string fs ''classification'' ''udp'';
             fs = fs_add_uint64 fs ''success'' 1;
             fs = fs_add_uint64 fs ''sport'' (ucast (ntohs (rd16 packet udp)));
             fs = fs_add_uint64 fs ''dport'' (ucast (ntohs (rd16 packet (udp + 2))));
             fs = fs_add_null fs ''icmp_responder'';
             fs = fs_add_null fs ''icmp_type'';
             fs = fs_add_null fs ''icmp_code'';
             fs = fs_add_null fs ''icmp_unreach_str'';
             fs = fs_add_uint64 fs ''udp_pkt_size'' (ucast (ntohs (rd16 packet (udp + 4))));
             data_len = ntohs (rd16 packet (udp + 4))
         in if unat data_len > sizeof_udphdr then
              (let overhead = (of_nat sizeof_udphdr :: u32);
                   max_rlen = caplen - overhead;
                   max_ilen = ucast (ntohs (pkt_ip6_plen packet ipv6_hdr)) - overhead;
                   data_len = (if ucast data_len > max_rlen then ucast max_rlen else data_len);
                   data_len = (if ucast data_len > max_ilen then ucast max_ilen else data_len)
               in fs_add_binary fs ''data''
                    (take (unat data_len) (drop (udp + sizeof_udphdr) packet)))
            else fs_add_null fs ''data'')
      else if pkt_ip6_nxt packet ipv6_hdr = IPPROTO_ICMPV6 then
        (let icmp6 = ipv6_hdr + sizeof_ip6_hdr;
             ipv6_inner = icmp6 + sizeof_icmp6_hdr;
             fs = fs_modify_string fs ''saddr'' (ntop (pkt_ip6_dst packet ipv6_inner));
             fs = fs_add_string fs ''classification'' ''icmp-unreach'';
             fs = fs_add_uint64 fs ''success'' 0;
             fs = fs_add_null fs ''sport'';
             fs = fs_add_null fs ''dport'';
             fs = fs_add_string fs ''icmp_responder'' (ntop (pkt_ip6_src packet ipv6_hdr));
             fs = fs_add_uint64 fs ''icmp_type'' (ucast (packet ! icmp6));
             fs = fs_add_uint64 fs ''icmp_code'' (ucast (packet ! (icmp6 + 1)));
             fs = fs_add_null fs ''icmp_unreach_str'';
             fs = fs_add_null fs ''udp_pkt_size''
         in fs_add_null fs ''data'')
      else
        (let fs = fs_add_string fs ''classification'' ''other'';
             fs = fs_add_uint64 fs ''success'' 0;
             fs = fs_add_null fs ''sport'';
             fs = fs_add_null fs ''dport'';
             fs = fs_add_null fs ''icmp_responder'';
             fs = fs_add_null fs ''icmp_type'';
             fs = fs_add_null fs ''icmp_code'';
             fs = fs_add_null fs ''icmp_unreach_str'';
             fs = fs_add_null fs ''udp_pkt_size''
         in fs_add_null fs ''data''))"

section \<open>send.c: one sender thread\<close>

subsection \<open>The shard and the batch\<close>

text \<open>
  Modelled from the spec: \<open>shard.c\<close> and \<open>shard.h\<close> are not among the sources. A shard
  (spec, 3 and 4.3) holds its counters and its position in the iterator;
  \<open>current_target\<close> peeks, \<open>next_target\<close> advances and returns the target it reaches,
  with the status \<open>DONE\<close> once the iterator is exhausted. The position is the list of
  the targets still to come. The counters are unbounded integers: their widths are
  declared in \<open>shard.h\<close>.
\<close>

datatype shard_status = ZMAP_SHARD_OK | ZMAP_SHARD_DONE

record target_t =
  ip :: u32
  port :: u16
  status :: shard_status

record shard_state =
  packets_sent :: int
  targets_scanned :: int
  max_targets :: int
  max_packets :: int
  packets_failed :: int

record shard_t =
  state :: shard_state
  thread_id :: u8
  cur :: target_t
  pending :: "target_t list"

definition shard_done :: target_t where
  "shard_done = \<lparr>ip = 0, port = 0, status = ZMAP_SHARD_DONE\<rparr>"

definition shard_get_cur_target :: "shard_t \<Rightarrow> target_t" where
  "shard_get_cur_target s = cur s"

definition shard_get_next_target :: "shard_t \<Rightarrow> target_t \<times> shard_t" where
  "shard_get_next_target s =
     (case pending s of
        [] \<Rightarrow> (shard_done, s\<lparr>cur := shard_done\<rparr>)
      | t # ts \<Rightarrow> (t, s\<lparr>cur := t, pending := ts\<rparr>))"

text \<open>
  A batch (\<open>create_packet_batch\<close>): \<open>capacity\<close> slots, each a packet buffer with its
  length, of which the first \<open>len\<close> are filled.
\<close>

type_synonym 'p batch_packet = "'p \<times> u32"

record 'p batch_t =
  packets :: "'p batch_packet list"
  len :: nat
  capacity :: nat

definition create_packet_batch :: "'p \<Rightarrow> u16 \<Rightarrow> 'p batch_t" where
  "create_packet_batch zeroed c =
     \<lparr>packets = replicate (unat c) (zeroed, 0), len = 0, capacity = unat c\<rparr>"

subsection \<open>The probe module and the surroundings of a thread\<close>

text \<open>
  The argument \<open>probe_data\<close> of \<open>make_packet\<close> is \<open>NULL\<close>, or what \<open>thread_initialize\<close>
  returned, or, in an IPv6 scan, the pair of the source and the target address.
\<close>

datatype 'd probe_data = Null_data | Thread_data 'd | Ipv6_pair "u8 list" "u8 list"

record ('p, 'd) probe_module_t =
  thread_initialize :: "(int \<times> 'd) option"
  prepare_packet :: "('p \<Rightarrow> int \<times> 'p) option"
  make_packet :: "'p \<Rightarrow> u32 \<Rightarrow> u32 \<Rightarrow> u16 \<Rightarrow> u8 \<Rightarrow> u32 list \<Rightarrow> u32 \<Rightarrow> u16 \<Rightarrow> 'd probe_data
                    \<Rightarrow> fatal + ('p \<times> u64)"

text \<open>
  What a thread reads from outside: the keyed function behind \<open>validate_gen\<close>, the
  transport (\<open>send_batch\<close> answers its \<open>k\<close>-th call on the slots it is given with the
  number of packets it sent, or a negative number), the receiver's \<open>complete\<close> flag
  and the run-time limit as the \<open>k\<close>-th turn of the loop finds them, the bitmap of
  listed addresses, the result of \<open>send_run_init\<close>, the IPv6 source address, the
  lines of the IPv6 target file that this thread gets, and a zeroed buffer.
\<close>

record 'p thread_env =
  validate_gen :: "u32 \<Rightarrow> u32 \<Rightarrow> u16 \<Rightarrow> u32 list"
  validate_gen_ipv6 :: "u8 list \<Rightarrow> u8 list \<Rightarrow> u16 \<Rightarrow> u32 list"
  send_batch :: "nat \<Rightarrow> 'p batch_packet list \<Rightarrow> int"
  zrecv_complete :: "nat \<Rightarrow> bool"
  max_runtime_reached :: "nat \<Rightarrow> bool"
  pbm_check :: "u32 \<Rightarrow> bool"
  send_run_init_ret :: int
  ipv6_src :: "u8 list"
  zeroed_buf :: 'p

text \<open>
  The state of a thread: its shard, its batch and its loop variables; the packets
  written to \<open>stdout\<close> by \<open>print_packet\<close>, in order; the calls of \<open>send_batch\<close>, each
  with the slots it was given and its result; and the targets left in the IPv6 file.
  \<open>built\<close> is not a variable of the program: it records every buffer
  \<open>make_packet\<close> returned, in order.
\<close>

record 'p thread_state =
  shard :: shard_t
  batch :: "'p batch_t"
  stdout :: "'p list"
  wire :: "('p batch_packet list \<times> int) list"
  built :: "'p list"
  current :: target_t
  current_ip :: u32
  current_port :: u16
  ipv6_dst :: "u8 list"
  ipv6_file :: "u8 list list"
  turn :: nat

definition ntohl :: "u32 \<Rightarrow> u32" where
  "ntohl x = push_bit 24 (x AND 0xFF) OR push_bit 8 (x AND 0xFF00)
             OR (drop_bit 8 x AND 0xFF00) OR drop_bit 24 x"

definition get_src_ip :: "state_conf \<Rightarrow> u32 \<Rightarrow> u32 \<Rightarrow> u32" where
  "get_src_ip zc dst local_offset =
     (if number_source_ips zc = 1 then source_ip_addresses zc ! 0
      else source_ip_addresses zc !
             unat ((ntohl dst + local_offset) mod number_source_ips zc))"

subsection \<open>The body of the loop\<close>

text \<open>
  Lines 423 to 485, for probe number \<open>i\<close>. The pacing of the loop changes no variable
  that the packets or the counters depend on and is left out. \<open>length_set\<close> is the
  value \<open>make_packet\<close> leaves in \<open>length\<close>. A write to
  \<open>batch->packets[batch->len]\<close> outside the batch has no defined behaviour and ends
  the model.
\<close>

definition add_packets_failed :: "int \<Rightarrow> shard_t \<Rightarrow> shard_t" where
  "add_packets_failed n s = s\<lparr>state := (state s)\<lparr>packets_failed := packets_failed (state s) + n\<rparr>\<rparr>"

definition incr_packets_sent :: "shard_t \<Rightarrow> shard_t" where
  "incr_packets_sent s = s\<lparr>state := (state s)\<lparr>packets_sent := packets_sent (state s) + 1\<rparr>\<rparr>"

definition incr_targets_scanned :: "shard_t \<Rightarrow> shard_t" where
  "incr_targets_scanned s =
     s\<lparr>state := (state s)\<lparr>targets_scanned := targets_scanned (state s) + 1\<rparr>\<rparr>"

definition send_probe ::
  "state_conf \<Rightarrow> 'p thread_env \<Rightarrow> ('p, 'd) probe_module_t \<Rightarrow> bool \<Rightarrow> 'd probe_data \<Rightarrow>
     'p thread_state \<Rightarrow> u32 \<Rightarrow> fatal + 'p thread_state" where
  "send_probe zc E M v6 probe_data t i =
     (let src_ip = get_src_ip zc (current_ip t) i;
          probe_data = (if v6 then Ipv6_pair (ipv6_src E) (ipv6_dst t) else probe_data);
          validation =
            (if v6 then validate_gen_ipv6 E (ipv6_src E) (ipv6_dst t) (htons (current_port t))
             else validate_gen E src_ip (current_ip t) (htons (current_port t)));
          ttl = probe_ttl zc;
          b = batch t
      in if \<not> len b < length (packets b) then
           Inl (''undefined'', ''batch->packets[batch->len] is outside the batch'')
         else
         case make_packet M (fst (packets b ! len b)) src_ip (current_ip t)
                (htons (current_port t)) ttl validation i
                (ucast (validation ! 3 AND 0xFFFF)) probe_data of
           Inl e \<Rightarrow> Inl e
         | Inr (filled, length_set) \<Rightarrow>
            if unat length_set > MAX_PACKET_SIZE then
              log_fatal ''send'' ''send thread %hhu set length (%zu) larger than MAX (%zu)''
            else
            let b = b\<lparr>packets := (packets b)[len b := (filled, ucast length_set)]\<rparr>;
                t = t\<lparr>built := built t @ [filled]\<rparr>;
                b = b\<lparr>len := len b + 1\<rparr>;
                t = (if dryrun zc then
                       (if len b = capacity b then
                          t\<lparr>stdout := stdout t @ map fst (take (len b) (packets b)),
                            batch := b\<lparr>len := 0\<rparr>\<rparr>
                        else t\<lparr>batch := b\<rparr>)
                     else
                       (if len b = capacity b then
                          let slots = take (len b) (packets b);
                              rc = send_batch E (length (wire t)) slots
                          in t\<lparr>wire := wire t @ [(slots, rc)],
                               shard := add_packets_failed
                                          (if rc < 0 then int (len b) else int (len b) - rc)
                                          (shard t),
                               batch := b\<lparr>len := 0\<rparr>\<rparr>
                        else t\<lparr>batch := b\<rparr>))
            in Inr (t\<lparr>shard := incr_packets_sent (shard t)\<rparr>))"

fun send_probes ::
  "state_conf \<Rightarrow> 'p thread_env \<Rightarrow> ('p, 'd) probe_module_t \<Rightarrow> bool \<Rightarrow> 'd probe_data \<Rightarrow>
     'p thread_state \<Rightarrow> u32 list \<Rightarrow> fatal + 'p thread_state" where
  "send_probes zc E M v6 probe_data t [] = Inr t"
| "send_probes zc E M v6 probe_data t (i # is) =
     (case send_probe zc E M v6 probe_data t i of
        Inl e \<Rightarrow> Inl e
      | Inr t' \<Rightarrow> send_probes zc E M v6 probe_data t' is)"

definition probe_numbers :: "state_conf \<Rightarrow> u32 list" where
  "probe_numbers zc = map of_nat [0 ..< nat (sint (packet_streams zc))]"

subsection \<open>The next target\<close>

text \<open>
  The loops that skip the addresses missing from the list of IPs (lines 324 to 335,
  which also set \<open>current_port\<close>, and lines 506 to 517, which do not): the second
  component tells whether the loop left by \<open>goto cleanup\<close>.
\<close>

function skip_unlisted :: "'p thread_env \<Rightarrow> bool \<Rightarrow> 'p thread_state \<Rightarrow> 'p thread_state \<times> bool" where
  "skip_unlisted E set_port t =
     (if pbm_check E (current_ip t) then (t, False)
      else
        let (c, s) = shard_get_next_target (shard t);
            t = t\<lparr>shard := s, current := c, current_ip := ip c\<rparr>;
            t = (if set_port then t\<lparr>current_port := port c\<rparr> else t)
        in if status c = ZMAP_SHARD_DONE then (t, True)
           else skip_unlisted E set_port t)"
  by pat_completeness auto
termination
  by (relation "measure (\<lambda>(E, set_port, t). length (pending (shard t)))")
     (auto simp: shard_get_next_target_def shard_done_def split: list.splits)

declare skip_unlisted.simps [simp del]

definition next_target ::
  "state_conf \<Rightarrow> 'p thread_env \<Rightarrow> bool \<Rightarrow> 'p thread_state \<Rightarrow> 'p thread_state \<times> bool" where
  "next_target zc E v6 t =
     (if v6 then
        (case ipv6_file t of
           [] \<Rightarrow> (t, True)
         | a # as \<Rightarrow> (t\<lparr>ipv6_dst := a, ipv6_file := as\<rparr>, False))
      else
        let (c, s) = shard_get_next_target (shard t);
            t = t\<lparr>shard := s, current := c, current_ip := ip c, current_port := port c\<rparr>
        in if list_of_ips_filename zc \<noteq> None \<and> status c \<noteq> ZMAP_SHARD_DONE
           then skip_unlisted E False t
           else (t, False))"

subsection \<open>The loop and the thread\<close>

text \<open>
  The loop ends: in an IPv6 scan every turn takes a line of the target file, and
  otherwise every turn advances the shard, whose status is \<open>DONE\<close> once no target is
  left.
\<close>

definition targets_left :: "bool \<Rightarrow> 'p thread_state \<Rightarrow> nat" where
  "targets_left v6 t =
     (if v6 then length (ipv6_file t)
      else length (pending (shard t)) + (if status (current t) = ZMAP_SHARD_DONE then 0 else 1))"

lemma send_probe_cursor:
  "send_probe zc E M v6 pd t i = Inr t' \<Longrightarrow>
     pending (shard t') = pending (shard t) \<and> current t' = current t \<and>
     ipv6_file t' = ipv6_file t"
  by (auto simp: send_probe_def Let_def log_fatal_def
      add_packets_failed_def incr_packets_sent_def
      split: if_splits sum.splits prod.splits)

lemma send_probes_cursor:
  "send_probes zc E M v6 pd t is = Inr t' \<Longrightarrow>
     pending (shard t') = pending (shard t) \<and> current t' = current t \<and>
     ipv6_file t' = ipv6_file t"
proof (induction "is" arbitrary: t)
  case Nil
  then show ?case by simp
next
  case (Cons i "is")
  then show ?case
    by (auto split: sum.splits dest: send_probe_cursor)
qed

lemma shard_get_next_target_left:
  "shard_get_next_target s = (c, s') \<Longrightarrow>
     length (pending s') + (if status c = ZMAP_SHARD_DONE then 0 else 1) \<le> length (pending s)"
  by (auto simp: shard_get_next_target_def shard_done_def split: list.splits)

lemma skip_unlisted_targets_left:
  "skip_unlisted E set_port t = (t', leave) \<Longrightarrow> targets_left False t' \<le> targets_left False t"
proof (induction E set_port t arbitrary: t' leave rule: skip_unlisted.induct)
  case (1 E set_port t)
  show ?case
  proof (cases "pbm_check E (current_ip t)")
    case True
    with "1.prems" show ?thesis by (simp add: skip_unlisted.simps[of E set_port t])
  next
    case False
    obtain c s where n: "shard_get_next_target (shard t) = (c, s)" by fastforce
    let ?t1 = "t\<lparr>shard := s, current := c, current_ip := ip c\<rparr>"
    let ?t2 = "if set_port then ?t1\<lparr>current_port := port c\<rparr> else ?t1"
    have le: "targets_left False ?t2 \<le> targets_left False t"
      using shard_get_next_target_left[OF n] by (auto simp: targets_left_def)
    show ?thesis
    proof (cases "status c = ZMAP_SHARD_DONE")
      case True
      with False n "1.prems" le show ?thesis
        by (auto simp: skip_unlisted.simps[of E set_port t] Let_def split: if_splits)
    next
      case nd: False
      have "skip_unlisted E set_port ?t2 = (t', leave)"
        using False n nd "1.prems"
        by (auto simp: skip_unlisted.simps[of E set_port t] Let_def split: if_splits)
      then have "targets_left False t' \<le> targets_left False ?t2"
        by (rule "1.IH"[OF False refl n[symmetric] refl refl nd])
      with le show ?thesis by linarith
    qed
  qed
qed

lemma next_target_targets_left:
  assumes "next_target zc E v6 t = (t', False)"
    and "v6 \<or> status (current t) \<noteq> ZMAP_SHARD_DONE"
  shows "targets_left v6 t' < targets_left v6 t"
proof (cases v6)
  case True
  with assms(1) show ?thesis
    by (auto simp: next_target_def targets_left_def split: list.splits)
next
  case False
  obtain c s where n: "shard_get_next_target (shard t) = (c, s)" by fastforce
  let ?t1 = "t\<lparr>shard := s, current := c, current_ip := ip c, current_port := port c\<rparr>"
  have lt: "targets_left False ?t1 < targets_left False t"
    using shard_get_next_target_left[OF n] assms(2) False by (simp add: targets_left_def)
  show ?thesis
  proof (cases "list_of_ips_filename zc \<noteq> None \<and> status c \<noteq> ZMAP_SHARD_DONE")
    case True
    then have "skip_unlisted E False ?t1 = (t', False)"
      using assms(1) False n by (simp add: next_target_def)
    from skip_unlisted_targets_left[OF this] lt False show ?thesis by simp
  next
    case nf: False
    then have "t' = ?t1"
      using assms(1) False n by (auto simp: next_target_def)
    with lt False show ?thesis by simp
  qed
qed

function send_loop ::
  "state_conf \<Rightarrow> 'p thread_env \<Rightarrow> ('p, 'd) probe_module_t \<Rightarrow> bool \<Rightarrow> 'd probe_data \<Rightarrow>
     'p thread_state \<Rightarrow> fatal + 'p thread_state" where
  "send_loop zc E M v6 probe_data t =
     (if zrecv_complete E (turn t) then Inr t
      else if max_runtime_reached E (turn t) then Inr t
      else if max_targets (state (shard t)) \<noteq> 0 \<and>
              targets_scanned (state (shard t)) \<ge> max_targets (state (shard t)) then Inr t
      else if max_packets (state (shard t)) \<noteq> 0 \<and>
              packets_sent (state (shard t)) \<ge> max_packets (state (shard t)) then Inr t
      else if \<not> v6 \<and> status (current t) = ZMAP_SHARD_DONE then Inr t
      else
        case send_probes zc E M v6 probe_data t (probe_numbers zc) of
          Inl e \<Rightarrow> Inl e
        | Inr t1 \<Rightarrow>
           (case next_target zc E v6 (t1\<lparr>shard := incr_targets_scanned (shard t1)\<rparr>) of
              (t2, True) \<Rightarrow> Inr t2
            | (t2, False) \<Rightarrow> send_loop zc E M v6 probe_data (t2\<lparr>turn := turn t2 + 1\<rparr>)))"
  by pat_completeness auto
termination send_loop
proof (relation "measure (\<lambda>(zc, E, M, v6, probe_data, t). targets_left v6 t)"; simp)
  fix zc E M v6 probe_data
  fix t b x :: "'p thread_state"
  assume nd: "v6 \<or> status (current t) \<noteq> ZMAP_SHARD_DONE"
    and sp: "send_probes zc E M v6 probe_data t (probe_numbers zc) = Inr b"
    and nt: "(x, False) = next_target zc E v6 (b\<lparr>shard := incr_targets_scanned (shard b)\<rparr>)"
  let ?b = "b\<lparr>shard := incr_targets_scanned (shard b)\<rparr>"
  have a: "targets_left v6 ?b = targets_left v6 t"
    using send_probes_cursor[OF sp]
    by (simp add: targets_left_def incr_targets_scanned_def)
  have st: "status (current ?b) = status (current t)"
    using send_probes_cursor[OF sp] by simp
  have lt: "targets_left v6 x < targets_left v6 ?b"
    using nd st by (intro next_target_targets_left[OF nt[symmetric]]) auto
  have "targets_left v6 (x\<lparr>turn := Suc (turn x)\<rparr>) = targets_left v6 x"
    by (simp add: targets_left_def)
  with a lt show "targets_left v6 (x\<lparr>turn := Suc (turn x)\<rparr>) < targets_left v6 t"
    by simp
qed

declare send_loop.simps [simp del]

definition EXIT_SUCCESS :: int where "EXIT_SUCCESS = 0"
definition EXIT_FAILURE :: int where "EXIT_FAILURE = 1"

text \<open>
  Lines 252 to 260: \<open>prepare_packet\<close> on every slot of the batch.
\<close>

fun prepare_slots :: "('p \<Rightarrow> int \<times> 'p) \<Rightarrow> 'p batch_packet list \<Rightarrow> fatal + 'p batch_packet list" where
  "prepare_slots prep [] = Inr []"
| "prepare_slots prep ((b, n) # slots) =
     (case prep b of
        (rv, b') \<Rightarrow>
          if rv \<noteq> EXIT_SUCCESS then
            log_fatal ''send'' ''Probe module failed to prepare packet: %u''
          else (case prepare_slots prep slots of
                  Inl e \<Rightarrow> Inl e
                | Inr slots' \<Rightarrow> Inr ((b', n) # slots')))"

text \<open>
  The label \<open>cleanup\<close>: the rest of the batch goes to \<open>send_batch\<close> or, in a dry
  run, to \<open>stdout\<close>. The call-back of the shard belongs to the orchestrator.
\<close>

definition cleanup :: "state_conf \<Rightarrow> 'p thread_env \<Rightarrow> 'p thread_state \<Rightarrow> 'p thread_state" where
  "cleanup zc E t =
     (let slots = take (len (batch t)) (packets (batch t)) in
      if \<not> dryrun zc then
        t\<lparr>wire := wire t @ [(slots, send_batch E (length (wire t)) slots)]\<rparr>
      else
        t\<lparr>stdout := stdout t @ map fst slots, batch := (batch t)\<lparr>len := 0\<rparr>\<rparr>)"

definition send_run ::
  "state_conf \<Rightarrow> 'p thread_env \<Rightarrow> ('p, 'd) probe_module_t \<Rightarrow> bool \<Rightarrow> u8 list list \<Rightarrow> shard_t \<Rightarrow>
     fatal + (int \<times> 'p thread_state)" where
  "send_run zc E M v6 target_file s =
     (let b = create_packet_batch (zeroed_buf E) (batch_size zc);
          t = \<lparr>shard = s, batch = b, stdout = [], wire = [], built = [],
               current = cur s, current_ip = 0, current_port = 0, ipv6_dst = [],
               ipv6_file = target_file, turn = 0\<rparr>
      in if send_run_init_ret E \<noteq> 0 then Inr (EXIT_FAILURE, t)
         else
         case (case thread_initialize M of
                 None \<Rightarrow> Inr Null_data
               | Some (rv, d) \<Rightarrow>
                   if rv \<noteq> EXIT_SUCCESS then
                     log_fatal ''send''
                       ''Send thread initialization for probe module failed: %u''
                   else Inr (Thread_data d)) of
           Inl e \<Rightarrow> Inl e
         | Inr probe_data \<Rightarrow>
         case (case prepare_packet M of
                 None \<Rightarrow> Inr (packets b)
               | Some prep \<Rightarrow> prepare_slots prep (packets b)) of
           Inl e \<Rightarrow> Inl e
         | Inr slots \<Rightarrow>
         let t = t\<lparr>batch := b\<lparr>packets := slots\<rparr>\<rparr>;
             (t, leave) =
               (if v6 then
                  (case ipv6_file t of
                     [] \<Rightarrow> (t, True)
                   | a # as \<Rightarrow>
                       (t\<lparr>ipv6_dst := a, ipv6_file := as, current_port := ports zc ! 0\<rparr>,
                        False))
                else
                  let t = t\<lparr>current := shard_get_cur_target s\<rparr>
                  in if list_of_ips_filename zc \<noteq> None then skip_unlisted E True t
                     else (t, False))
         in if leave then Inr (EXIT_SUCCESS, cleanup zc E t)
            else
              (case send_loop zc E M v6 probe_data t of
                 Inl e \<Rightarrow> Inl e
               | Inr t \<Rightarrow> Inr (EXIT_SUCCESS, cleanup zc E t)))"

section \<open>The DNS module as a probe module, and some inputs\<close>

text \<open>
  The entries of \<open>module_dns\<close> that a sender thread calls. The module has no
  \<open>thread_initialize\<close>, and \<open>send_run\<close> passes a \<open>length\<close> of 0 to \<open>make_packet\<close>.
\<close>

definition module_dns :: "state_conf \<Rightarrow> dns_module \<Rightarrow> (packet, unit) probe_module_t" where
  "module_dns zc m =
     \<lparr>thread_initialize = None,
      prepare_packet = Some (\<lambda>buf. dns_prepare_packet m buf (hw_mac zc) (gw_mac zc)),
      make_packet = (\<lambda>buf src_ip dst_ip dport ttl validation probe_num ipid arg.
                       dns_make_packet zc m buf 0 src_ip dst_ip dport ttl validation
                         probe_num ipid)\<rparr>"

text \<open>
  The validation words \<open>send_run\<close> computes for probe \<open>i\<close> of the current target.
\<close>

definition probe_validation ::
  "state_conf \<Rightarrow> 'p thread_env \<Rightarrow> bool \<Rightarrow> 'p thread_state \<Rightarrow> u32 \<Rightarrow> u32 list" where
  "probe_validation zc E v6 t i =
     (if v6 then validate_gen_ipv6 E (ipv6_src E) (ipv6_dst t) (htons (current_port t))
      else validate_gen E (get_src_ip zc (current_ip t) i) (current_ip t)
             (htons (current_port t)))"

text \<open>
  The module is well formed when it has a packet and a packet length for every
  question and each packet has at least the bytes its length announces.
\<close>

definition dns_module_wf :: "dns_module \<Rightarrow> bool" where
  "dns_module_wf m =
     (length (dns_packets m) = num_questions m \<and>
      length (dns_packet_lens m) = num_questions m \<and>
      (\<forall>i < num_questions m. unat (dns_packet_lens m ! i) \<le> length (dns_packets m ! i)))"

text \<open>
  The wire layout of the embedded target address in the spec's words: for each of the
  four octets a length byte \<open>0x03\<close> and the octet in three decimal digits, zero-padded.
\<close>

definition ip_label :: "u8 \<Rightarrow> u8 list" where
  "ip_label x = [0x03, of_nat (48 + unat x div 100), of_nat (48 + unat x div 10 mod 10),
                 of_nat (48 + unat x mod 10)]"

definition ip_qname_encoding :: "u32 \<Rightarrow> u8 list" where
  "ip_qname_encoding a = concat (map (\<lambda>k. ip_label (octet a k)) [0, 1, 2, 3])"

text \<open>
  The module after \<open>--probe-args="A,example.com"\<close>, and a response from 1.2.3.4 to a
  probe with \<open>validation[2] = 0x1234ABCD\<close>: it carries the transaction id \<open>0xABCD\<close>
  and the name \<open>example.com\<close>, but the query type AAAA (28) in its question.
\<close>

definition example_com_module :: dns_module where
  "example_com_module =
     \<lparr>num_questions = 1,
      dns_packets =
        [[0, 0, 1, 0, 0, 1, 0, 0, 0, 0, 0, 0,
          7, 101, 120, 97, 109, 112, 108, 101, 3, 99, 111, 109, 0, 0, 1, 0, 1]],
      dns_packet_lens = [29], qname_lens = [13],
      qnames = [[7, 101, 120, 97, 109, 112, 108, 101, 3, 99, 111, 109, 0]],
      qtypes = [1], rdbits = [255], num_ports = 28233\<rparr>"

definition aaaa_response :: "u8 list" where
  "aaaa_response =
     [0x02, 0x00, 0x00, 0x00, 0x00, 0x01, 0x02, 0x00, 0x00, 0x00, 0x00, 0x02, 0x08, 0x00,
      0x45, 0x00, 0x00, 0x39, 0x00, 0x00, 0x00, 0x00, 0x40, 0x11, 0x00, 0x00,
      0x01, 0x02, 0x03, 0x04, 0x0A, 0x00, 0x00, 0x01,
      0x00, 0x35, 0x80, 0x05, 0x00, 0x25, 0x00, 0x00,
      0xCD, 0xAB, 0x81, 0x80, 0x00, 0x01, 0x00, 0x00, 0x00, 0x00, 0x00, 0x00,
      0x07, 0x65, 0x78, 0x61, 0x6D, 0x70, 0x6C, 0x65, 0x03, 0x63, 0x6F, 0x6D, 0x00,
      0x00, 0x1C, 0x00, 0x01]"

text \<open>
  A thread for tests: one probe per target, a batch of two slots, a transport that
  accepts no packet, and a keyed function that always answers with the same four words.
\<close>

definition test_conf :: state_conf where
  "test_conf = default_conf\<lparr>batch_size := 2\<rparr>"

definition padded_conf :: state_conf where
  "padded_conf = default_conf\<lparr>dnsippadding := True\<rparr>"

definition test_env :: "packet thread_env" where
  "test_env =
     \<lparr>validate_gen = (\<lambda>src dst dport. [0x11111111, 0x00000002, 0x1234ABCD, 0xDEADBEEF]),
      validate_gen_ipv6 = (\<lambda>src dst dport. [0, 0, 0, 0]),
      send_batch = (\<lambda>k slots. 0),
      zrecv_complete = (\<lambda>k. False),
      max_runtime_reached = (\<lambda>k. False),
      pbm_check = (\<lambda>a. True),
      send_run_init_ret = 0,
      ipv6_src = [],
      zeroed_buf = zero_packet\<rparr>"

definition test_shard :: shard_t where
  "test_shard =
     \<lparr>state = \<lparr>packets_sent = 0, targets_scanned = 0, max_targets = 0, max_packets = 0,
               packets_failed = 0\<rparr>,
      thread_id = 0,
      cur = \<lparr>ip = 0x04030201, port = 53, status = ZMAP_SHARD_OK\<rparr>,
      pending = [\<lparr>ip = 0x08080808, port = 53, status = ZMAP_SHARD_OK\<rparr>]\<rparr>"

definition test_thread :: "packet thread_state" where
  "test_thread =
     \<lparr>shard = test_shard, batch = create_packet_batch zero_packet 2, stdout = [],
      wire = [], built = [], current = cur test_shard, current_ip = 0x04030201,
      current_port = 53, ipv6_dst = [], ipv6_file = [], turn = 0\<rparr>"

text \<open>
  Modelled from the spec: the number of batch slots submitted successfully (spec, 3) is
  the sum, over the calls of \<open>send_batch\<close>, of the number of packets each accepted.
  \<open>slots_submitted\<close> is the number of slots these calls were given.
\<close>

definition slots_accepted :: "('p batch_packet list \<times> int) list \<Rightarrow> int" where
  "slots_accepted w = sum_list (map (\<lambda>(slots, rc). if rc < 0 then 0 else rc) w)"

definition slots_submitted :: "('p batch_packet list \<times> int) list \<Rightarrow> int" where
  "slots_submitted w = sum_list (map (\<lambda>(slots, rc). int (length slots)) w)"

definition thread_counts ::
  "fatal + (int \<times> 'p thread_state) \<Rightarrow> (int \<times> int \<times> int) option" where
  "thread_counts r =
     (case r of
        Inl e \<Rightarrow> None
      | Inr (rv, t) \<Rightarrow>
          Some (packets_sent (state (shard t)), slots_submitted (wire t),
                slots_accepted (wire t)))"

text \<open>
  The record of the DNS module for the ICMP port-unreachable message above, and an
  ICMPv6 destination-unreachable message of 62 + 48 bytes in which only the next-header
  byte is not zero.
\<close>

definition icmp_unreach_record :: fieldset_t where
  "icmp_unreach_record =
     [(''saddr'', FS_STRING ''1.2.3.4''), (''saddr_raw'', FS_UINT64 151587081),
      (''daddr'', FS_STRING ''10.0.0.1''), (''daddr_raw'', FS_UINT64 16777226),
      (''ipid'', FS_UINT64 0), (''ttl'', FS_UINT64 64), (''sport'', FS_NULL),
      (''dport'', FS_NULL), (''classification'', FS_STRING ''icmp''),
      (''success'', FS_BOOL False), (''app_success'', FS_BOOL False),
      (''icmp_responder'', FS_STRING ''9.9.9.9''), (''icmp_type'', FS_UINT64 3),
      (''icmp_code'', FS_UINT64 3), (''icmp_unreach_str'', FS_STRING ''port unreachable''),
      (''udp_len'', FS_NULL)]"

definition icmp6_unreach_frame :: "u8 list" where
  "icmp6_unreach_frame = (replicate 110 0)[20 := 58]"

definition test_ntop :: "u8 list \<Rightarrow> string" where
  "test_ntop a = concat (map (\<lambda>b. dec (unat b) @ '':'') a)"

section \<open>What a thread has written and counted\<close>

text \<open>
  The part of the state of a thread that the steps from one target to the next leave
  alone: the batch, what went to \<open>stdout\<close> and to \<open>send_batch\<close>, the packets built,
  and the two counters of the shard that the loop over the probes updates.
\<close>

definition io_of ::
  "'p thread_state \<Rightarrow>
     'p batch_t \<times> 'p list \<times> ('p batch_packet list \<times> int) list \<times> 'p list \<times> int \<times> int" where
  "io_of t = (batch t, stdout t, wire t, built t,
              packets_sent (state (shard t)), packets_failed (state (shard t)))"

text \<open>
  A thread of the shard \<open>s\<close> that has built no packet yet.
\<close>

definition fresh_thread :: "shard_t \<Rightarrow> 'p thread_state \<Rightarrow> bool" where
  "fresh_thread s t =
     (len (batch t) = 0 \<and> stdout t = [] \<and> wire t = [] \<and> built t = [] \<and>
      packets_sent (state (shard t)) = packets_sent (state s) \<and>
      packets_failed (state (shard t)) = packets_failed (state s))"


text \<open>
  The invariant of a run that transmits: \<open>packets_sent\<close> has grown by the number of
  slots given to \<open>send_batch\<close> plus the number of slots waiting in the batch.
\<close>

definition wire_inv :: "shard_t \<Rightarrow> 'p thread_state \<Rightarrow> bool" where
  "wire_inv s t =
     (len (batch t) \<le> length (packets (batch t)) \<and>
      packets_sent (state (shard t)) =
        packets_sent (state s) + slots_submitted (wire t) + int (len (batch t)))"

text \<open>
  The threads of a scan, each with its surroundings, its part of the IPv6 target file,
  its shard, and the value and the state \<open>send_run\<close> returned.
\<close>

type_synonym 'p thread_run =
  "'p thread_env \<times> u8 list list \<times> shard_t \<times> int \<times> 'p thread_state"

definition threads_ran ::
  "state_conf \<Rightarrow> ('p, 'd) probe_module_t \<Rightarrow> bool \<Rightarrow> 'p thread_run list \<Rightarrow> bool" where
  "threads_ran zc M v6 runs =
     list_all (\<lambda>(E, tf, s, rv, t). send_run zc E M v6 tf s = Inr (rv, t)) runs"


section \<open>Properties of send\_init\<close>

lemma bandwidth_pkt_len_nat:
  assumes "unat mpl < 2 ^ 60"
  shows "unat (bandwidth_pkt_len mpl) = max (unat mpl * 8 + 8 * 24) (84 * 8)"
proof -
  have a: "unat (mpl * 8 + 8 * 24) = unat mpl * 8 + 192"
    using assms by (simp add: unat_word_ariths)
  show ?thesis
    unfolding bandwidth_pkt_len_def Let_def
    using a by (auto simp: word_less_nat_alt max_def)
qed

lemma sint_small_u32:
  fixes w :: u32
  assumes "unat w < 2 ^ 31"
  shows "sint w = int (unat w)"
proof -
  have "nat (uint w) < 2147483648" using assms by simp
  then have "uint w < 2147483648" by linarith
  then have "uint w < 2 ^ 31" by simp
  moreover have "- (2 ^ 31) \<le> uint w" by (rule order_trans[of _ 0]) simp_all
  ultimately have "signed_take_bit 31 (uint w) = uint w"
    by (intro signed_take_bit_int_eq_self)
  moreover have "sint w = signed_take_bit 31 (uint w)" by (simp add: sint_uint)
  moreover have "uint w = int (unat w)" by (rule uint_nat)
  ultimately show ?thesis by presburger
qed

lemma bandwidth_to_rate_nat:
  assumes "0 < bandwidth zc" "unat mpl < 2 ^ 60"
    and q: "q = unat (bandwidth zc) div max (unat mpl * 8 + 8 * 24) (84 * 8)"
    and "q < 2 ^ 31"
  shows "sint (rate (bandwidth_to_rate zc mpl)) = (if q = 0 then 1 else int q)"
proof -
  have d: "unat (bandwidth zc div bandwidth_pkt_len mpl) = q"
    using bandwidth_pkt_len_nat[OF assms(2)] q by (simp add: unat_div)
  have le: "\<not> bandwidth zc div bandwidth_pkt_len mpl > 0xFFFFFFFF"
    using d assms(4) by (simp add: word_less_nat_alt)
  have u: "unat (ucast (bandwidth zc div bandwidth_pkt_len mpl) :: u32) = q"
    using d assms(4) by (simp add: unsigned_ucast_eq take_bit_nat_eq_self)
  have z: "(ucast (bandwidth zc div bandwidth_pkt_len mpl) :: u32) = 0 \<longleftrightarrow> q = 0"
    using u by (metis unat_eq_zero)
  have s: "sint (ucast (bandwidth zc div bandwidth_pkt_len mpl) :: u32) = int q"
    using u assms(4) sint_small_u32 by metis
  show ?thesis
    unfolding bandwidth_to_rate_def Let_def using assms(1) le z s by simp
qed

lemma oversubscription_test_nat:
  fixes s t :: u32 and c p :: u64
  assumes "unat s * unat t < 2 ^ 32" "unat c * unat p < 2 ^ 64"
  shows "(ucast (s * t) > c * p) \<longleftrightarrow> unat c * unat p < unat s * unat t"
proof -
  have a: "unat (s * t) = unat s * unat t"
    using assms(1) unat_mult_lem[of s t] by simp
  have b: "unat (c * p) = unat c * unat p"
    using assms(2) unat_mult_lem[of c p] by simp
  have c: "unat (ucast (s * t) :: u64) = unat (s * t)"
    by (simp add: unsigned_ucast_eq take_bit_nat_eq_self unsigned_less[THEN less_trans])
  show ?thesis unfolding word_less_nat_alt a b c a ..
qed

lemma gigabit_run: "send_init gigabit_conf 0 gigabit_env = Inr gigabit_globals"
  by (simp add: send_init_def log_fatal_def gigabit_conf_def gigabit_env_def
      default_conf_def gigabit_globals_def bandwidth_to_rate_def bandwidth_pkt_len_def)

text \<open>
  Claim C2, as amended. When a bandwidth \<open>B > 0\<close> is configured, \<open>send_init\<close>
  returns, \<open>max_packet_length\<close> is below \<open>2 ^ 60\<close> and the quotient of \<open>B\<close> by the
  framed packet size in bits \<open>max (max_packet_length * 8 + 24 * 8) (84 * 8)\<close> is below
  \<open>2 ^ 31\<close> (the range of the \<open>int\<close> that holds the rate), the packet rate is this
  quotient: the floor of 84 bytes applies to the packet with its 24 bytes of framing,
  not to the packet alone. A quotient of 0 becomes 1 packet per second.
\<close>

theorem send_init_bandwidth_rate:
  assumes "send_init zc zsend_max_targets env = Inr g"
    and "0 < bandwidth zc"
    and "unat (max_packet_length env) < 2 ^ 60"
    and "q = unat (bandwidth zc) div max (unat (max_packet_length env) * 8 + 8 * 24) (84 * 8)"
    and "q < 2 ^ 31"
  shows "sint (rate (conf g)) = (if q = 0 then 1 else int q)"
proof -
  let ?zc1 = "bandwidth_to_rate zc (max_packet_length env)"
  have r: "sint (rate ?zc1) = (if q = 0 then 1 else int q)"
    using bandwidth_to_rate_nat[OF assms(2,3,4,5)] .
  then have "sint (rate ?zc1) \<noteq> - 1" by (simp split: if_splits)
  then have "conf g = ?zc1"
    using assms(1) unfolding send_init_def log_fatal_def Let_def
    by (auto split: if_splits)
  then show ?thesis using r by simp
qed

theorem send_init_bandwidth_rate_witness:
  "sint (rate (conf gigabit_globals)) = 1488095"
proof -
  have "sint (rate (conf gigabit_globals)) = (if (1488095::nat) = 0 then 1 else int 1488095)"
    by (rule send_init_bandwidth_rate [OF gigabit_run])
      (simp_all add: gigabit_conf_def gigabit_env_def default_conf_def)
  then show ?thesis by simp
qed

text \<open>
  Claim C2 as stated fails: for 1 Gbit/s and a longest packet of 40 bytes the code sets
  the rate to \<open>1000000000 div 672 = 1488095\<close>, not to
  \<open>1000000000 div (max 40 84 * 8 + 24 * 8) = 1157407\<close>.
\<close>

theorem send_init_bandwidth_rate_counterexample:
  "send_init gigabit_conf 0 gigabit_env = Inr gigabit_globals \<and>
   sint (rate (conf gigabit_globals)) \<noteq> 1000000000 div (max 40 84 * 8 + 24 * 8)"
  using gigabit_run by (simp add: gigabit_globals_def gigabit_conf_def default_conf_def)

text \<open>
  Claim C3. If \<open>senders * total_shards\<close> exceeds \<open>count_allowed * port_count\<close>,
  \<open>send_init\<close> ends in \<open>log_fatal\<close> and returns no iterator, so no sender thread can
  start; the message is \<open>senders * shards > allowed probes\<close> (unless the IPv6 source
  address of an IPv6 scan was already refused, three lines earlier). The two products
  are taken in the ranges of \<open>uint32_t\<close> and \<open>uint64_t\<close>, which the field types of the
  configuration and the size of the IPv4 address space guarantee.
\<close>

theorem send_init_refuses_oversubscription:
  assumes "unat (senders zc) * unat (total_shards zc) < 2 ^ 32"
    and "unat (blocklist_count_allowed env) * unat (port_count zc) < 2 ^ 64"
    and "unat (blocklist_count_allowed env) * unat (port_count zc)
           < unat (senders zc) * unat (total_shards zc)"
  shows "(\<exists>e. send_init zc zsend_max_targets env = Inl e) \<and>
         (ipv6_target_filename zc = None \<or> inet_pton_ret env = 1 \<longrightarrow>
            send_init zc zsend_max_targets env = Inl (''send'', ''senders * shards > allowed probes''))"
proof -
  have "ucast (senders zc * total_shards zc) > blocklist_count_allowed env * port_count zc"
    using oversubscription_test_nat[OF assms(1,2)] assms(3) by simp
  then show ?thesis
    unfolding send_init_def log_fatal_def Let_def by simp
qed

theorem send_init_refuses_oversubscription_witness:
  "send_init oversubscribed_conf 0 oversubscribed_env =
     Inl (''send'', ''senders * shards > allowed probes'')"
  using send_init_refuses_oversubscription [of oversubscribed_conf oversubscribed_env 0]
  by (simp add: oversubscribed_conf_def oversubscribed_env_def default_conf_def)

section \<open>Properties of packet.h and packet.c\<close>

text \<open>
  Claim C5 fails on the code. With seven source ports, five probes per target and
  \<open>validation[1] = 0xFFFFFFFE\<close>, the second probe is sent from port 32771:
  \<open>validation[1] + 1 = 0xFFFFFFFF\<close> and \<open>0xFFFFFFFF mod 7 = 3\<close>. At validation time
  \<open>min = 0xFFFFFFFE mod 7 = 2\<close>, and \<open>validation[1] + packet_streams - 1\<close> wraps to 2, so
  \<open>max = 2\<close>: the window is the single port 32770 and \<open>check_dst_port\<close> returns 0 for
  the port \<open>get_src_port\<close> chose.
\<close>

theorem check_dst_port_rejects_get_src_port:
  "get_src_port seven_ports_conf 7 1 [0, 0xFFFFFFFE, 0, 0] = 32771 \<and>
   check_dst_port seven_ports_conf
     (get_src_port seven_ports_conf 7 1 [0, 0xFFFFFFFE, 0, 0]) 7 [0, 0xFFFFFFFE, 0, 0] = 0"
  by (simp add: check_dst_port_def get_src_port_def seven_ports_conf_def default_conf_def)

lemma pkt_ip_hl_le: "unat (pkt_ip_hl p i) \<le> 15"
proof -
  have "pkt_ip_hl p i \<le> 0x0F"
    unfolding pkt_ip_hl_def by (rule word_and_le1)
  then show ?thesis by (simp add: word_le_nat_alt)
qed

lemma unat_ucast_u8_u64: "unat (ucast (x :: u8) :: u64) = unat x"
  by (simp add: unsigned_ucast_eq take_bit_nat_eq_self unsigned_less[THEN less_trans])

lemma unat_ucast_u8_u32: "unat (ucast (x :: u8) :: u32) = unat x"
  by (simp add: unsigned_ucast_eq take_bit_nat_eq_self unsigned_less[THEN less_trans])

lemma unat_ucast_u32_u64: "unat (ucast (x :: u32) :: u64) = unat x"
  by (simp add: unsigned_ucast_eq take_bit_nat_eq_self unsigned_less[THEN less_trans])

lemma min_len_nat:
  fixes h :: u8 and m :: u64
  assumes "unat h \<le> 15" "unat m < 2 ^ 31"
  shows "unat (ucast (4 * (ucast h :: u64) + 8 + 20 + m) :: u32) = 4 * unat h + 8 + 20 + unat m"
proof -
  have a: "unat (4 * (ucast h :: u64) + 8 + 20 + m) = 4 * unat h + 8 + 20 + unat m"
    using assms by (simp add: unat_word_ariths unat_ucast_u8_u64)
  show ?thesis
    using assms a by (simp add: unsigned_ucast_eq take_bit_nat_eq_self)
qed

lemma outer_headers_nat:
  fixes h :: u8
  assumes "unat h \<le> 15"
  shows "unat (4 * (ucast h :: u32) + 8) = 4 * unat h + 8"
  using assms by (simp add: unat_word_ariths unat_ucast_u8_u32)

lemma inner_need_nat:
  fixes h :: u8 and m :: u64
  assumes "unat h \<le> 15" "unat m < 2 ^ 31"
  shows "unat (4 * (ucast h :: u64) + m) = 4 * unat h + unat m"
  using assms by (simp add: unat_word_ariths unat_ucast_u8_u64)

text \<open>
  Claim C10. For a packet whose protocol is ICMP (the function asserts it),
  \<open>icmp_helper_validate\<close> returns \<open>PACKET_VALID\<close>, with \<open>*probe_pkt\<close> at the embedded
  header and \<open>*probe_len\<close> the bytes from there on, exactly when (a) the packet has at
  least \<open>4 * ip_hl + 8 + sizeof(struct ip) + min_l4_len\<close> bytes and the embedded
  packet at least its own IP header and \<open>min_l4_len\<close> bytes, (b) the ICMP type is
  destination unreachable, source quench, redirect or time exceeded, and (c) the
  blocklist allows the embedded destination address; in every other case it returns
  \<open>PACKET_INVALID\<close> and leaves both out-parameters as they were. \<open>min_l4_len\<close> is the
  size of a transport header, far below \<open>2 ^ 31\<close>.
\<close>

theorem icmp_helper_validate_valid_iff:
  assumes "pkt_ip_p p 0 = IPPROTO_ICMP"
    and "unat min_l4_len < 2 ^ 31"
    and "unat caplen \<le> length p"
    and "hl = unat (pkt_ip_hl p 0)"
    and "ihl = unat (pkt_ip_hl p (4 * hl + 8))"
  shows "icmp_helper_validate allowed p caplen min_l4_len probe_pkt probe_len =
     (if 4 * hl + 8 + 20 + unat min_l4_len \<le> unat caplen \<and>
         4 * ihl + unat min_l4_len \<le> unat caplen - (4 * hl + 8) \<and>
         pkt_icmp_type p (4 * hl) \<in> {ICMP_UNREACH, ICMP_SOURCEQUENCH, ICMP_REDIRECT, ICMP_TIMXCEED} \<and>
         allowed (pkt_ip_dst p (4 * hl + 8))
      then Inr (PACKET_VALID, 4 * hl + 8, of_nat (unat caplen - (4 * hl + 8)))
      else Inr (PACKET_INVALID, probe_pkt, probe_len))"
proof -
  let ?h = "pkt_ip_hl p 0"
  have h15: "unat ?h \<le> 15" by (rule pkt_ip_hl_le)
  have i15: "unat (pkt_ip_hl p (4 * hl + 8)) \<le> 15" by (rule pkt_ip_hl_le)
  have ml: "unat (ucast (4 * (ucast ?h :: u64) + 8 + 20 + min_l4_len) :: u32)
              = 4 * hl + 8 + 20 + unat min_l4_len"
    using min_len_nat[OF h15 assms(2)] assms(4) by simp
  have c1: "(caplen < (ucast (4 * (ucast ?h :: u64) + 8 + 20 + min_l4_len) :: u32))
              \<longleftrightarrow> \<not> (4 * hl + 8 + 20 + unat min_l4_len \<le> unat caplen)"
    unfolding word_less_nat_alt ml by auto
  have hd: "unat (4 * (ucast ?h :: u32) + 8) = 4 * hl + 8"
    using outer_headers_nat[OF h15] assms(4) by simp
  have sub: "4 * hl + 8 \<le> unat caplen \<Longrightarrow>
      unat (ucast (caplen - (4 * (ucast ?h :: u32) + 8)) :: u64) = unat caplen - (4 * hl + 8)"
    using hd by (simp add: unat_ucast_u32_u64 unat_sub word_le_nat_alt)
  have need: "unat (4 * (ucast (pkt_ip_hl p (4 * hl + 8)) :: u64) + min_l4_len)
               = 4 * ihl + unat min_l4_len"
    using inner_need_nat[OF i15 assms(2)] assms(5) by simp
  have c2: "4 * hl + 8 \<le> unat caplen \<Longrightarrow>
     ((ucast (caplen - (4 * (ucast ?h :: u32) + 8)) :: u64)
        < 4 * (ucast (pkt_ip_hl p (4 * hl + 8)) :: u64) + min_l4_len)
     \<longleftrightarrow> \<not> (4 * ihl + unat min_l4_len \<le> unat caplen - (4 * hl + 8))"
    unfolding word_less_nat_alt need using sub by auto
  have val: "4 * hl + 8 \<le> unat caplen \<Longrightarrow>
     (ucast (caplen - (4 * (ucast ?h :: u32) + 8)) :: u64) = of_nat (unat caplen - (4 * hl + 8))"
    using sub by (metis of_nat_unat ucast_id)
  show ?thesis
  proof (cases "4 * hl + 8 + 20 + unat min_l4_len \<le> unat caplen")
    case False
    then show ?thesis
      using assms(1) c1
      by (simp add: icmp_helper_validate_def Let_def ICMP_HEADER_SIZE_def sizeof_ip_def)
  next
    case True
    then have le: "4 * hl + 8 \<le> unat caplen" by simp
    show ?thesis
      using assms(1) True c1 c2[OF le] val[OF le] assms(4)[symmetric]
      by (auto simp: icmp_helper_validate_def Let_def ICMP_HEADER_SIZE_def sizeof_ip_def)
  qed
qed

lemma icmp_unreach_ip_p: "pkt_ip_p icmp_unreach_ip 0 = IPPROTO_ICMP"
  by (simp add: icmp_unreach_ip_def pkt_ip_p_def IPPROTO_ICMP_def)

lemma icmp_unreach_ip_hl: "5 = unat (pkt_ip_hl icmp_unreach_ip 0)"
  by (simp add: icmp_unreach_ip_def pkt_ip_hl_def)

lemma icmp_unreach_ip_inner_hl: "5 = unat (pkt_ip_hl icmp_unreach_ip (4 * 5 + 8))"
  by (simp add: icmp_unreach_ip_def pkt_ip_hl_def)

lemma icmp_unreach_ip_len: "unat (56 :: u32) \<le> length icmp_unreach_ip"
  by (simp add: icmp_unreach_ip_def)

lemma icmp_unreach_ip_type: "pkt_icmp_type icmp_unreach_ip (4 * 5) = ICMP_UNREACH"
  by (simp add: icmp_unreach_ip_def pkt_icmp_type_def ICMP_UNREACH_def)

theorem icmp_helper_validate_valid_iff_witness:
  "icmp_helper_validate (\<lambda>a. True) icmp_unreach_ip 56 8 0 0 = Inr (PACKET_VALID, 28, 28)"
proof -
  have "icmp_helper_validate (\<lambda>a. True) icmp_unreach_ip 56 8 0 0 =
     (if 4 * 5 + 8 + 20 + unat (8 :: u64) \<le> unat (56 :: u32) \<and>
         4 * 5 + unat (8 :: u64) \<le> unat (56 :: u32) - (4 * 5 + 8) \<and>
         pkt_icmp_type icmp_unreach_ip (4 * 5) \<in>
           {ICMP_UNREACH, ICMP_SOURCEQUENCH, ICMP_REDIRECT, ICMP_TIMXCEED} \<and>
         True
      then Inr (PACKET_VALID, 4 * 5 + 8, of_nat (unat (56 :: u32) - (4 * 5 + 8)))
      else Inr (PACKET_INVALID, 0, 0))"
    by (rule icmp_helper_validate_valid_iff
          [OF icmp_unreach_ip_p _ icmp_unreach_ip_len icmp_unreach_ip_hl
              icmp_unreach_ip_inner_hl]) simp
  then show ?thesis unfolding icmp_unreach_ip_type by simp
qed

section \<open>Properties of the DNS module\<close>


lemma digit_char_is_digit: "d < 10 \<Longrightarrow> is_digit (digit_char d)"
  by (simp add: is_digit_def digit_char_def)

lemma of_char_digit_char: "d < 10 \<Longrightarrow> (of_char (digit_char d) :: nat) = 48 + d"
  by (simp add: digit_char_def)

lemma digit_char_not_dot:
  assumes "d < 10"
  shows "digit_char d \<noteq> CHR ''.''"
proof
  assume "digit_char d = CHR ''.''"
  then have "(of_char (digit_char d) :: nat) = of_char CHR ''.''" by simp
  then show False using of_char_digit_char[OF assms] by simp
qed

lemma dec_digits: "c \<in> set (dec n) \<Longrightarrow> is_digit c \<and> c \<noteq> CHR ''.''"
proof (induction n arbitrary: c rule: dec.induct)
  case (1 n)
  show ?case
  proof (cases "n < 10")
    case True
    with "1.prems" show ?thesis
      by (simp add: dec.simps[of n] digit_char_is_digit digit_char_not_dot)
  next
    case False
    with "1.prems" "1.IH" show ?thesis
      by (auto simp: dec.simps[of n] digit_char_is_digit digit_char_not_dot)
  qed
qed

lemma atoi_dec: "atoi (dec n) = n"
proof -
  have tw: "takeWhile is_digit (dec n) = dec n" for n
    using dec_digits by (simp add: takeWhile_eq_all_conv)
  have "foldl (\<lambda>a c. a * 10 + (of_char c - 48)) 0 (dec n) = n"
  proof (induction n rule: dec.induct)
    case (1 n)
    show ?case
    proof (cases "n < 10")
      case True
      then show ?thesis by (simp add: dec.simps[of n] of_char_digit_char)
    next
      case False
      with "1.IH" show ?thesis
        by (simp add: dec.simps[of n] of_char_digit_char)
    qed
  qed
  then show ?thesis by (simp add: atoi_def tw)
qed

lemma strsep_dot_no_dot: "CHR ''.'' \<notin> set s \<Longrightarrow> strsep_dot s = [s]"
  by (induction s) auto

lemma strsep_dot_append:
  "CHR ''.'' \<notin> set s \<Longrightarrow> strsep_dot (s @ CHR ''.'' # r) = s # strsep_dot r"
  by (induction s) auto

lemma dec_no_dot: "CHR ''.'' \<notin> set (dec n)"
  using dec_digits by blast

lemma strsep_inet_ntoa:
  "strsep_dot (inet_ntoa a) =
     [dec (unat (octet a 0)), dec (unat (octet a 1)), dec (unat (octet a 2)), dec (unat (octet a 3))]"
  by (simp add: inet_ntoa_def strsep_dot_append strsep_dot_no_dot dec_no_dot)

lemma dec_lt_10: "n < 10 \<Longrightarrow> dec n = [digit_char n]"
  by (simp add: dec.simps[of n])

lemma dec_lt_100: "10 \<le> n \<Longrightarrow> n < 100 \<Longrightarrow> dec n = [digit_char (n div 10), digit_char (n mod 10)]"
  by (simp add: dec.simps[of n] dec_lt_10)

lemma dec_lt_1000: "100 \<le> n \<Longrightarrow> n < 1000 \<Longrightarrow>
  dec n = [digit_char (n div 100), digit_char (n div 10 mod 10), digit_char (n mod 10)]"
  by (simp add: dec.simps[of n] dec_lt_100 div_mult2_eq[symmetric] less_mult_imp_div_less)

lemma of_char_digit_char_u8:
  assumes "d < 10"
  shows "(of_char (digit_char d) :: u8) = of_nat (48 + d)"
proof -
  have "(of_char (digit_char d) :: u8) = of_nat (of_char (digit_char d) :: nat)"
    by (simp only: of_nat_of_char)
  then show ?thesis using of_char_digit_char[OF assms] by simp
qed

lemma sprintf_03d_small:
  assumes "n < 1000"
  shows "sprintf_03d n = [of_nat (48 + n div 100), of_nat (48 + n div 10 mod 10), of_nat (48 + n mod 10), 0]"
proof -
  consider "n < 10" | "10 \<le> n" "n < 100" | "100 \<le> n" using assms by linarith
  then show ?thesis
  proof cases
    case 1 then show ?thesis
      by (simp add: sprintf_03d_def dec_lt_10 of_char_digit_char_u8 numeral_3_eq_3)
  next
    case 2
    then have "n div 10 < 10" by simp
    with 2 show ?thesis
      by (simp add: sprintf_03d_def dec_lt_100 of_char_digit_char_u8 numeral_3_eq_3)
  next
    case 3
    then have "n div 100 < 10" "n div 10 mod 10 < 10" using assms by simp_all
    with 3 show ?thesis using assms
      by (simp add: sprintf_03d_def dec_lt_1000 of_char_digit_char_u8)
  qed
qed

lemma replicate_17: "replicate 17 (0 :: u8) = [0,0,0,0,0,0,0,0,0,0,0,0,0,0,0,0,0]"
  by (simp add: numeral_eq_Suc)

lemma make_ip_strinqname_encoding:
  "make_ip_strinqname a = ip_qname_encoding a @ [0]"
proof -
  have "unat (octet a k) < 2 ^ 8" for k
    using unsigned_less[of "octet a k", where 'a=nat] by simp
  then have lt: "unat (octet a k) < 1000" for k
    by (rule less_trans) simp
  show ?thesis
    by (simp add: make_ip_strinqname_def strsep_inet_ntoa strinqname_step_def atoi_dec
        sprintf_03d_small[OF lt] replicate_17 memcpy_def ip_qname_encoding_def ip_label_def)
qed


lemma length_ip_qname_encoding: "length (ip_qname_encoding a) = 16"
  by (simp add: ip_qname_encoding_def ip_label_def)

lemma dns_make_packet_payload:
  assumes "dns_make_packet zc m buf bl src dst dport ttl v pn ipid = Inr (b, n)"
    and "dns_module_wf m"
  shows "\<exists>pl. length (payload buf) \<le> length pl \<and>
          payload b = (if dnsippadding zc then memcpy pl (54 - 42) (make_ip_strinqname dst) 16
                       else pl)"
proof -
  let ?i = "unat pn mod num_questions m"
  let ?pl1 = "if 0 < num_questions m
              then memcpy (payload buf) 0 (dns_packets m ! ?i) (unat (dns_packet_lens m ! ?i))
              else payload buf"
  let ?pl2 = "memcpy ?pl1 0 (bytes_of_host16 (ucast (v ! 2 AND 0xFFFF))) 2"
  have p: "payload b = (if dnsippadding zc
                        then memcpy ?pl2 (54 - 42) (make_ip_strinqname dst) 16 else ?pl2)"
    using assms(1)
    by (auto simp: dns_make_packet_def Let_def get_dns_question_index_by_probe_num_def
        split: if_splits sum.splits prod.splits)
  have l1: "length (payload buf) \<le> length ?pl1"
  proof (cases "0 < num_questions m")
    case True
    then have "?i < num_questions m" by simp
    then have "unat (dns_packet_lens m ! ?i) \<le> length (dns_packets m ! ?i)"
      using assms(2) by (simp add: dns_module_wf_def)
    with True show ?thesis by (simp add: memcpy_def)
  next
    case False
    then show ?thesis by simp
  qed
  have "length ?pl1 \<le> length ?pl2"
    by (simp add: memcpy_def bytes_of_host16_def)
  with l1 have "length (payload buf) \<le> length ?pl2" by (rule order_trans)
  with p show ?thesis by blast
qed

text \<open>
  Claim C8. \<open>make_ip_strinqname\<close> returns, before the closing NUL, exactly 16 bytes:
  for each of the four octets of the address the length byte \<open>0x03\<close> and the octet in
  three decimal digits, zero-padded. With \<open>dnsippadding\<close> set, \<open>dns_make_packet\<close>
  leaves this encoding of the destination address in the 16 bytes at offset 54 of the
  packet (offset 12 of the bytes after the UDP header), where the name of the question
  starts.
\<close>

theorem dns_make_packet_embeds_target_ip:
  "make_ip_strinqname a = ip_qname_encoding a @ [0] \<and>
   length (ip_qname_encoding a) = 16 \<and>
   (dnsippadding zc \<and> dns_module_wf m \<and> 54 + 16 \<le> 42 + length (payload buf) \<and>
    dns_make_packet zc m buf bl src dst dport ttl v pn ipid = Inr (b, n)
    \<longrightarrow> take 16 (drop (54 - 42) (payload b)) = ip_qname_encoding dst)"
proof (intro conjI impI)
  show "make_ip_strinqname a = ip_qname_encoding a @ [0]"
    by (rule make_ip_strinqname_encoding)
  show "length (ip_qname_encoding a) = 16"
    by (rule length_ip_qname_encoding)
next
  assume h: "dnsippadding zc \<and> dns_module_wf m \<and> 54 + 16 \<le> 42 + length (payload buf) \<and>
    dns_make_packet zc m buf bl src dst dport ttl v pn ipid = Inr (b, n)"
  then obtain pl where pl: "length (payload buf) \<le> length pl"
    "payload b = memcpy pl (54 - 42) (make_ip_strinqname dst) 16"
    using dns_make_packet_payload[of zc m buf bl src dst dport ttl v pn ipid b n] by auto
  have "12 \<le> length pl" using h pl(1) by simp
  then show "take 16 (drop (54 - 42) (payload b)) = ip_qname_encoding dst"
    by (simp add: pl(2) memcpy_def make_ip_strinqname_encoding length_ip_qname_encoding)
qed


lemma example_com_module_wf: "dns_module_wf example_com_module"
  by (simp add: dns_module_wf_def example_com_module_def)

lemma unat_frame_len:
  fixes x :: u16
  shows "unat (of_nat (sizeof_ether_header + sizeof_ip + sizeof_udphdr) + ucast x :: u64)
           = 42 + unat x"
proof -
  have a: "unat (ucast x :: u64) = unat x"
    by (simp add: unsigned_ucast_eq take_bit_nat_eq_self unsigned_less[THEN less_trans])
  have "unat x < 2 ^ 16" using unsigned_less[of x, where 'a=nat] by simp
  then have "42 + unat x < 2 ^ 64" by simp
  then show ?thesis
    using a by (simp add: sizeof_ether_header_def sizeof_ip_def sizeof_udphdr_def unat_word_ariths)
qed

lemma dns_make_packet_returns:
  assumes "0 \<le> sint pn" and "0 < num_questions m"
    and "unat (dns_packet_lens m ! (unat pn mod num_questions m)) \<le> MAX_PACKET_SIZE - 42"
  shows "\<exists>b n. dns_make_packet zc m buf bl src dst dport ttl v pn ipid = Inr (b, n) \<and>
                unat n \<le> MAX_PACKET_SIZE"
proof -
  have "unat (of_nat (sizeof_ether_header + sizeof_ip + sizeof_udphdr)
              + ucast (dns_packet_lens m ! (unat pn mod num_questions m)) :: u64)
          \<le> MAX_PACKET_SIZE"
    unfolding unat_frame_len using assms(3) by (simp add: MAX_PACKET_SIZE_def)
  then show ?thesis
    using assms(1,2)
    by (simp add: dns_make_packet_def get_dns_question_index_by_probe_num_def Let_def)
qed

lemma ip_qname_encoding_1_2_3_4:
  "ip_qname_encoding 0x04030201 =
     [3, 48, 48, 49, 3, 48, 48, 50, 3, 48, 48, 51, 3, 48, 48, 52]"
  by (simp add: ip_qname_encoding_def ip_label_def octet_def)

theorem dns_make_packet_embeds_target_ip_witness:
  "\<exists>b n. dns_make_packet padded_conf example_com_module zero_packet 0 0x0100000A 0x04030201
            (htons 53) 255 [0, 2, 0x1234ABCD, 0xDEADBEEF] 0 0xBEEF = Inr (b, n) \<and>
     take 16 (drop (54 - 42) (payload b)) =
       [3, 48, 48, 49, 3, 48, 48, 50, 3, 48, 48, 51, 3, 48, 48, 52]"
proof -
  have "unat (dns_packet_lens example_com_module !
              (unat (0 :: u32) mod num_questions example_com_module)) \<le> MAX_PACKET_SIZE - 42"
    by (simp add: example_com_module_def MAX_PACKET_SIZE_def)
  moreover have "0 \<le> sint (0 :: u32)" by simp
  moreover have "0 < num_questions example_com_module"
    by (simp add: example_com_module_def)
  ultimately have "\<exists>b n. dns_make_packet padded_conf example_com_module zero_packet 0
      0x0100000A 0x04030201 (htons 53) 255 [0, 2, 0x1234ABCD, 0xDEADBEEF] 0 0xBEEF = Inr (b, n)
      \<and> unat n \<le> MAX_PACKET_SIZE"
    by (intro dns_make_packet_returns)
  then obtain b n where r: "dns_make_packet padded_conf example_com_module zero_packet 0
      0x0100000A 0x04030201 (htons 53) 255 [0, 2, 0x1234ABCD, 0xDEADBEEF] 0 0xBEEF = Inr (b, n)"
    by blast
  have pad: "dnsippadding padded_conf"
    by (simp add: padded_conf_def)
  have room: "54 + 16 \<le> 42 + length (payload zero_packet)"
    by (simp add: zero_packet_def MAX_PACKET_SIZE_def)
  have "take 16 (drop (54 - 42) (payload b)) = ip_qname_encoding 0x04030201"
    using dns_make_packet_embeds_target_ip
      [where zc=padded_conf and m=example_com_module and buf=zero_packet and b=b and n=n
         and dst="0x04030201"]
      pad example_com_module_wf room r
    by blast
  with r show ?thesis unfolding ip_qname_encoding_1_2_3_4 by blast
qed

lemma unat_of_nat_le: "unat (of_nat k :: u16) \<le> k"
  by (simp add: unat_of_nat)

lemma length_qname_labels: "length (qname_labels s) = length s"
  by (induction s) auto

lemma build_global_dns_packets_wf:
  assumes "build_global_dns_packets m ds i = Inr m'"
    and "length (dns_packets m) = length (dns_packet_lens m)"
    and "\<forall>j < length (dns_packets m). unat (dns_packet_lens m ! j) \<le> length (dns_packets m ! j)"
  shows "length (dns_packets m') = length (dns_packets m) + length ds \<and>
         length (dns_packet_lens m') = length (dns_packets m) + length ds \<and>
         num_questions m' = num_questions m \<and>
         (\<forall>j < length (dns_packets m'). unat (dns_packet_lens m' ! j) \<le> length (dns_packets m' ! j))"
  using assms
proof (induction ds arbitrary: m i)
  case Nil
  then show ?case by simp
next
  case (Cons d ds)
  obtain qname ql where q: "domain_to_qname d = (qname, ql)" by fastforce
  let ?len = "of_nat (sizeof_dns_header + unat ql + sizeof_dns_question_tail) :: u16"
  let ?pk = "dns_query_bytes (rdbits m ! i) qname ql (qtypes m ! i)"
  let ?m1 = "m\<lparr>qname_lens := qname_lens m @ [ql], qnames := qnames m @ [qname],
                dns_packet_lens := dns_packet_lens m @ [?len],
                dns_packets := dns_packets m @ [?pk]\<rparr>"
  have r: "build_global_dns_packets ?m1 ds (i + 1) = Inr m'"
    using Cons.prems(1) q by (auto simp: Let_def log_fatal_def split: if_splits)
  have ql: "unat ql \<le> length qname"
  proof -
    have "length qname = length d + 2"
      using q by (auto simp: domain_to_qname_def length_qname_labels)
    moreover have "ql = of_nat (length d + 1 + 1)"
      using q by (simp add: domain_to_qname_def)
    then have "unat ql \<le> length d + 1 + 1"
      by (simp only: unat_of_nat_le)
    ultimately show ?thesis by simp
  qed
  have lp: "length ?pk = 16 + unat ql"
    using ql by (simp add: dns_query_bytes_def bytes_of_host16_def)
  have "unat ?len \<le> sizeof_dns_header + unat ql + sizeof_dns_question_tail"
    by (rule unat_of_nat_le)
  then have "unat ?len \<le> 16 + unat ql"
    by (simp add: sizeof_dns_header_def sizeof_dns_question_tail_def)
  with lp have le: "unat ?len \<le> length ?pk" by simp
  have inv: "\<forall>j < length (dns_packets ?m1).
               unat (dns_packet_lens ?m1 ! j) \<le> length (dns_packets ?m1 ! j)"
    using Cons.prems(2,3) le by (auto simp: nth_append)
  have "length (dns_packets ?m1) = length (dns_packet_lens ?m1)"
    using Cons.prems(2) by simp
  from Cons.IH[OF r this inv] show ?case by simp
qed

lemma dns_global_state_wf:
  assumes "dns_global_state zc questions = Inr m"
  shows "dns_module_wf m"
proof -
  define qs where
    "qs = (if questions = [] then [(default_qtype, default_domain, default_rdbit)]
           else questions)"
  have "build_global_dns_packets
          \<lparr>num_questions = length qs, dns_packets = [], dns_packet_lens = [],
           qname_lens = [], qnames = [], qtypes = map fst qs,
           rdbits = map (\<lambda>q. snd (snd q)) qs,
           num_ports = ucast (source_port_last zc) - ucast (source_port_first zc) + 1\<rparr>
          (map (\<lambda>q. fst (snd q)) qs) 0 = Inr m"
    using assms unfolding dns_global_state_def Let_def log_fatal_def qs_def
    by (simp split: if_splits)
  from build_global_dns_packets_wf[OF this] show ?thesis
    by (simp add: dns_module_wf_def)
qed


lemma example_com_module_built:
  "dns_global_state default_conf [(DNS_QTYPE_A, ''example.com'', 0xFF)] = Inr example_com_module"
  by (simp add: dns_global_state_def default_conf_def DNS_QTYPE_A_def domain_to_qname_def
      sizeof_dns_header_def sizeof_dns_question_tail_def DNS_PAYLOAD_LEN_LIMIT_def
      dns_query_bytes_def bytes_of_host16_def htons_def example_com_module_def log_fatal_def)

text \<open>
  Claim C4 fails on the code. The module asks \<open>A,example.com\<close>; the response echoes
  the transaction id and the name but the query type AAAA. \<open>dns_process_packet\<close>
  marks it \<open>success = true\<close>: \<open>tail_p\<close> points at the tail of the module's own query
  \<open>dns_packets[i]\<close>, so the comparison with \<open>qtypes[i]\<close> and the class \<open>0x01\<close> never
  reads the response.
\<close>

theorem dns_process_packet_accepts_other_qtype:
  "dns_global_state default_conf [(DNS_QTYPE_A, ''example.com'', 0xFF)] = Inr example_com_module \<and>
   dns_process_packet default_conf example_com_module aaaa_response 71 []
       [0, 0, 0x1234ABCD, 0] =
     Inr [(''sport'', FS_UINT64 53), (''dport'', FS_UINT64 32773),
          (''classification'', FS_STRING ''dns''), (''success'', FS_BOOL True),
          (''app_success'', FS_BOOL True), (''icmp_responder'', FS_NULL),
          (''icmp_type'', FS_NULL), (''icmp_code'', FS_NULL),
          (''icmp_unreach_str'', FS_NULL), (''udp_len'', FS_UINT64 37)]"
  using example_com_module_built
  by (simp add: dns_process_packet_def Let_def get_udp_header_def aaaa_response_def
      pkt_ip_hl_def pkt_ip_p_def sizeof_ether_header_def sizeof_udphdr_def IPPROTO_UDP_def
      rd16_def le16_def ntohs_def htons_def example_com_module_def default_conf_def
      strcmp_eq_def c_str_def sizeof_dns_header_def DNS_QR_ANSWER_def DNS_RCODE_NOERR_def
      fs_add_uint64_def fs_add_string_def fs_add_bool_def fs_add_null_icmp_def fs_add_null_def)

lemma send_probe_slot:
  assumes "send_probe zc E M v6 pd t i = Inr t'"
  shows "\<exists>filled n.
           make_packet M (fst (packets (batch t) ! len (batch t)))
             (get_src_ip zc (current_ip t) i) (current_ip t) (htons (current_port t))
             (probe_ttl zc) (probe_validation zc E v6 t i) i
             (ucast (probe_validation zc E v6 t i ! 3 AND 0xFFFF))
             (if v6 then Ipv6_pair (ipv6_src E) (ipv6_dst t) else pd) = Inr (filled, n) \<and>
           unat n \<le> MAX_PACKET_SIZE \<and>
           len (batch t) < length (packets (batch t)) \<and>
           packets (batch t') = (packets (batch t))[len (batch t) := (filled, ucast n)] \<and>
           built t' = built t @ [filled]"
  using assms
  by (auto simp: send_probe_def probe_validation_def Let_def log_fatal_def
      add_packets_failed_def incr_packets_sent_def
      split: if_splits sum.splits prod.splits)

lemma dns_make_packet_ip_header:
  assumes "dns_make_packet zc m buf bl src dst dport ttl v pn ipid = Inr (b, l)"
    and "0 < num_questions m"
  shows "ip_hl (ip_header b) = 5 \<and> ip_v (ip_header b) = 4 \<and> ip_ttl (ip_header b) = ttl \<and>
         ip_id (ip_header b) = ipid \<and> ip_src (ip_header b) = src \<and>
         ip_dst (ip_header b) = dst \<and> ip_p (ip_header b) = IPPROTO_UDP"
  using assms
  by (auto simp: dns_make_packet_def Let_def make_ip_header_def
      split: if_splits sum.splits prod.splits)

text \<open>
  Claim C6. The packet that \<open>send_run\<close> has the DNS module build into the next slot of
  the batch carries an IP header with \<open>ip_hl = 5\<close>, the configured \<open>probe_ttl\<close>, and
  the low 16 bits of \<open>validation[3]\<close> as its identification (not the \<open>htons(54321)\<close>
  that \<open>make_ip_header\<close> writes first). The DNS module is the IPv4 module among the
  sources; it always has at least one question.
\<close>

theorem send_probe_dns_ip_header:
  assumes "send_probe zc E (module_dns zc m) False pd t i = Inr t'"
    and "0 < num_questions m"
  shows "ip_hl (ip_header (fst (packets (batch t') ! len (batch t)))) = 5 \<and>
         ip_ttl (ip_header (fst (packets (batch t') ! len (batch t)))) = probe_ttl zc \<and>
         ip_id (ip_header (fst (packets (batch t') ! len (batch t)))) =
           ucast (validate_gen E (get_src_ip zc (current_ip t) i) (current_ip t)
                    (htons (current_port t)) ! 3 AND 0xFFFF)"
proof -
  from send_probe_slot[OF assms(1)] obtain filled n where
    mk: "make_packet (module_dns zc m) (fst (packets (batch t) ! len (batch t)))
             (get_src_ip zc (current_ip t) i) (current_ip t) (htons (current_port t))
             (probe_ttl zc) (probe_validation zc E False t i) i
             (ucast (probe_validation zc E False t i ! 3 AND 0xFFFF)) pd = Inr (filled, n)"
    and lt: "len (batch t) < length (packets (batch t))"
    and pk: "packets (batch t') = (packets (batch t))[len (batch t) := (filled, ucast n)]"
    by auto
  have slot: "fst (packets (batch t') ! len (batch t)) = filled"
    using lt pk by simp
  have "dns_make_packet zc m (fst (packets (batch t) ! len (batch t))) 0
             (get_src_ip zc (current_ip t) i) (current_ip t) (htons (current_port t))
             (probe_ttl zc) (probe_validation zc E False t i) i
             (ucast (probe_validation zc E False t i ! 3 AND 0xFFFF)) = Inr (filled, n)"
    using mk by (simp add: module_dns_def)
  from dns_make_packet_ip_header[OF this assms(2)] slot
  show ?thesis by (simp add: probe_validation_def)
qed


lemma send_probe_returns:
  assumes "len (batch t) < length (packets (batch t))"
    and "make_packet M (fst (packets (batch t) ! len (batch t)))
             (get_src_ip zc (current_ip t) i) (current_ip t) (htons (current_port t))
             (probe_ttl zc) (probe_validation zc E v6 t i) i
             (ucast (probe_validation zc E v6 t i ! 3 AND 0xFFFF))
             (if v6 then Ipv6_pair (ipv6_src E) (ipv6_dst t) else pd) = Inr (filled, n)"
    and "unat n \<le> MAX_PACKET_SIZE"
  shows "\<exists>t'. send_probe zc E M v6 pd t i = Inr t'"
  using assms
  by (simp add: send_probe_def probe_validation_def Let_def)

lemma test_probe_returns:
  "\<exists>t'. send_probe test_conf test_env (module_dns test_conf example_com_module) False
          Null_data test_thread 0 = Inr t'"
proof -
  have l: "len (batch test_thread) < length (packets (batch test_thread))"
    by (simp add: test_thread_def create_packet_batch_def)
  have "unat (dns_packet_lens example_com_module ! (unat (0 :: u32) mod num_questions example_com_module))
          \<le> MAX_PACKET_SIZE - 42"
    by (simp add: example_com_module_def MAX_PACKET_SIZE_def)
  moreover have "0 \<le> sint (0 :: u32)" by simp
  moreover have "0 < num_questions example_com_module"
    by (simp add: example_com_module_def)
  ultimately have "\<exists>b n. dns_make_packet test_conf example_com_module
        (fst (packets (batch test_thread) ! len (batch test_thread))) 0
        (get_src_ip test_conf (current_ip test_thread) 0) (current_ip test_thread)
        (htons (current_port test_thread)) (probe_ttl test_conf)
        (probe_validation test_conf test_env False test_thread 0) 0
        (ucast (probe_validation test_conf test_env False test_thread 0 ! 3 AND 0xFFFF))
       = Inr (b, n) \<and> unat n \<le> MAX_PACKET_SIZE"
    by (intro dns_make_packet_returns)
  then obtain b n where
    "dns_make_packet test_conf example_com_module
        (fst (packets (batch test_thread) ! len (batch test_thread))) 0
        (get_src_ip test_conf (current_ip test_thread) 0) (current_ip test_thread)
        (htons (current_port test_thread)) (probe_ttl test_conf)
        (probe_validation test_conf test_env False test_thread 0) 0
        (ucast (probe_validation test_conf test_env False test_thread 0 ! 3 AND 0xFFFF))
       = Inr (b, n)" and "unat n \<le> MAX_PACKET_SIZE"
    by blast
  then show ?thesis
    by (intro send_probe_returns[OF l, where filled=b and n=n]) (simp_all add: module_dns_def)
qed

theorem send_probe_dns_ip_header_witness:
  "\<exists>t'. send_probe test_conf test_env (module_dns test_conf example_com_module) False
          Null_data test_thread 0 = Inr t' \<and>
        ip_hl (ip_header (fst (packets (batch t') ! 0))) = 5 \<and>
        ip_ttl (ip_header (fst (packets (batch t') ! 0))) = 255 \<and>
        ip_id (ip_header (fst (packets (batch t') ! 0))) = 0xBEEF"
proof -
  obtain t' where r: "send_probe test_conf test_env (module_dns test_conf example_com_module)
      False Null_data test_thread 0 = Inr t'"
    using test_probe_returns by blast
  have nq: "0 < num_questions example_com_module"
    by (simp add: example_com_module_def)
  have l0: "len (batch test_thread) = 0"
    by (simp add: test_thread_def create_packet_batch_def)
  have v: "validate_gen test_env a b c ! 3 AND 0xFFFF = 0xBEEF" for a b c
    by (simp add: test_env_def)
  have ttl: "probe_ttl test_conf = 255"
    by (simp add: test_conf_def default_conf_def)
  from send_probe_dns_ip_header[OF r nq] r show ?thesis
    unfolding l0 v ttl by auto
qed

section \<open>Properties of the records of ICMP errors\<close>


lemma fs_get_append:
  "fs_get (fs @ gs) k = (case fs_get fs k of Some y \<Rightarrow> Some y | None \<Rightarrow> fs_get gs k)"
  by (simp add: fs_get_def map_add_def split: option.splits)

lemma fs_get_Cons: "fs_get ((n, x) # gs) k = (if k = n then Some x else fs_get gs k)"
  by (simp add: fs_get_def)

lemma fs_get_Nil: "fs_get [] k = None"
  by (simp add: fs_get_def)

lemma fs_get_modify_same: "fs_get (fs_modify_string fs n v) n = Some (FS_STRING v)"
  by (induction fs n v rule: fs_modify_string.induct) (auto simp: fs_get_def)

lemma fs_get_modify_other: "k \<noteq> n \<Longrightarrow> fs_get (fs_modify_string fs n v) k = fs_get fs k"
  by (induction fs n v rule: fs_modify_string.induct) (auto simp: fs_get_def)

lemmas fs_add_defs = fs_add_string_def fs_add_constchar_def fs_add_uint64_def fs_add_bool_def
  fs_add_binary_def fs_add_null_def

lemma fs_populate_icmp_fields:
  assumes "4 * unat (pkt_ip_hl p i) + 28 \<le> unat (ucast n :: u32)"
    and "fs_get fs ''icmp_responder'' = None"
  shows "\<exists>fs'. fs_populate_icmp_from_iphdr p i n fs = Inr fs' \<and>
           fs_get fs' ''saddr'' = Some (FS_STRING (make_ip_str (pkt_ip_dst p (i + 4 * unat (pkt_ip_hl p i) + 8)))) \<and>
           fs_get fs' ''icmp_responder'' = Some (FS_STRING (make_ip_str (pkt_ip_src p i))) \<and>
           (\<forall>k. k \<notin> {''saddr'', ''icmp_responder'', ''icmp_type'', ''icmp_code'', ''icmp_unreach_str''}
                \<longrightarrow> fs_get fs' k = fs_get fs k)"
proof -
  have a: "get_icmp_header p i n = Some (i + 4 * unat (pkt_ip_hl p i))"
    using assms(1) by (simp add: get_icmp_header_def sizeof_icmp_def)
  have b: "get_inner_ip_header p (i + 4 * unat (pkt_ip_hl p i)) n
             = Some (i + 4 * unat (pkt_ip_hl p i) + 8)"
    using assms(1)
    by (simp add: get_inner_ip_header_def ICMP_UNREACH_HEADER_SIZE_def sizeof_ip_def)
  have c: "fs_get (fs_modify_string fs ''saddr'' v) ''icmp_responder'' = None" for v
    using assms(2) by (simp add: fs_get_modify_other)
  show ?thesis
    using c
    by (auto simp: fs_populate_icmp_from_iphdr_def a b Let_def fs_add_defs fs_get_append
        fs_get_Cons fs_get_Nil fs_get_modify_same fs_get_modify_other split: option.splits)
qed

text \<open>
  Claim C7, as amended. For an ICMP error response that embeds the probe, the record's
  \<open>saddr\<close> is rewritten to the destination address of the embedded header,
  \<open>icmp_responder\<close> is the source address of the ICMP message and \<open>success\<close> is
  false; the classification is \<open>icmp\<close> in the DNS module and \<open>icmp-unreach\<close> in the
  IPv6 UDP module. The record starts with the address fields of the response
  (\<open>fs_add_ip_fields\<close>, \<open>fs_add_ipv6_fields\<close>), and the IPv4 message is long enough
  for \<open>get_icmp_header\<close>.
\<close>

theorem icmp_error_record:
  "(pkt_ip_p packet 14 = IPPROTO_ICMP \<and>
    4 * unat (pkt_ip_hl packet 14) + 28 \<le> unat caplen \<longrightarrow>
      (\<exists>fs. dns_process_packet zc m packet caplen (fs_add_ip_fields [] packet 14) v = Inr fs \<and>
         fs_get fs ''saddr'' =
           Some (FS_STRING (make_ip_str
                   (pkt_ip_dst packet (14 + 4 * unat (pkt_ip_hl packet 14) + 8)))) \<and>
         fs_get fs ''icmp_responder'' = Some (FS_STRING (make_ip_str (pkt_ip_src packet 14))) \<and>
         fs_get fs ''classification'' = Some (FS_STRING ''icmp'') \<and>
         fs_get fs ''success'' = Some (FS_BOOL False))) \<and>
   (pkt_ip6_nxt packet 14 = IPPROTO_ICMPV6 \<longrightarrow>
      fs_get (ipv6_udp_process_packet ntop packet caplen (fs_add_ipv6_fields ntop [] packet 14))
          ''saddr'' = Some (FS_STRING (ntop (pkt_ip6_dst packet (14 + 40 + 8)))) \<and>
      fs_get (ipv6_udp_process_packet ntop packet caplen (fs_add_ipv6_fields ntop [] packet 14))
          ''icmp_responder'' = Some (FS_STRING (ntop (pkt_ip6_src packet 14))) \<and>
      fs_get (ipv6_udp_process_packet ntop packet caplen (fs_add_ipv6_fields ntop [] packet 14))
          ''classification'' = Some (FS_STRING ''icmp-unreach'') \<and>
      fs_get (ipv6_udp_process_packet ntop packet caplen (fs_add_ipv6_fields ntop [] packet 14))
          ''success'' = Some (FS_UINT64 0))"
proof (intro conjI impI)
  assume h: "pkt_ip_p packet 14 = IPPROTO_ICMP \<and>
    4 * unat (pkt_ip_hl packet 14) + 28 \<le> unat caplen"
  let ?fs0 = "fs_add_bool (fs_add_bool (fs_add_constchar (fs_add_null (fs_add_null
      (fs_add_ip_fields [] packet 14) ''sport'') ''dport'') ''classification'' ''icmp'')
      ''success'' False) ''app_success'' False"
  have n: "fs_get ?fs0 ''icmp_responder'' = None"
    by (simp add: fs_add_ip_fields_def Let_def fs_add_defs fs_get_def)
  have u: "unat (ucast (ucast caplen :: u64) :: u32) = unat caplen"
    by (simp add: unsigned_ucast_eq take_bit_word_eq_self)
  from fs_populate_icmp_fields[of packet 14 "ucast caplen" ?fs0] h n u
  obtain fs' where p: "fs_populate_icmp_from_iphdr packet 14 (ucast caplen) ?fs0 = Inr fs'"
    and s: "fs_get fs' ''saddr'' = Some (FS_STRING (make_ip_str
                   (pkt_ip_dst packet (14 + 4 * unat (pkt_ip_hl packet 14) + 8))))"
    and r: "fs_get fs' ''icmp_responder'' = Some (FS_STRING (make_ip_str (pkt_ip_src packet 14)))"
    and o: "\<forall>k. k \<notin> {''saddr'', ''icmp_responder'', ''icmp_type'', ''icmp_code'', ''icmp_unreach_str''}
                \<longrightarrow> fs_get fs' k = fs_get ?fs0 k"
    by auto
  have c: "fs_get fs' ''classification'' = Some (FS_STRING ''icmp'')"
    using o by (simp add: fs_add_ip_fields_def Let_def fs_add_defs fs_get_def)
  have su: "fs_get fs' ''success'' = Some (FS_BOOL False)"
    using o by (simp add: fs_add_ip_fields_def Let_def fs_add_defs fs_get_def)
  have "dns_process_packet zc m packet caplen (fs_add_ip_fields [] packet 14) v
          = Inr (fs_add_null fs' ''udp_len'')"
    using h p
    by (simp add: dns_process_packet_def sizeof_ether_header_def IPPROTO_ICMP_def
        IPPROTO_UDP_def Let_def)
  then show "\<exists>fs. dns_process_packet zc m packet caplen (fs_add_ip_fields [] packet 14) v = Inr fs \<and>
         fs_get fs ''saddr'' =
           Some (FS_STRING (make_ip_str
                   (pkt_ip_dst packet (14 + 4 * unat (pkt_ip_hl packet 14) + 8)))) \<and>
         fs_get fs ''icmp_responder'' = Some (FS_STRING (make_ip_str (pkt_ip_src packet 14))) \<and>
         fs_get fs ''classification'' = Some (FS_STRING ''icmp'') \<and>
         fs_get fs ''success'' = Some (FS_BOOL False)"
    using s r c su by (simp add: fs_add_null_def fs_get_append)
next
  assume h: "pkt_ip6_nxt packet 14 = IPPROTO_ICMPV6"
  then have e: "ipv6_udp_process_packet ntop packet caplen (fs_add_ipv6_fields ntop [] packet 14)
     = (''saddr'', FS_STRING (ntop (pkt_ip6_dst packet (14 + 40 + 8))))
       # tl (fs_add_ipv6_fields ntop [] packet 14)
       @ [(''classification'', FS_STRING ''icmp-unreach''), (''success'', FS_UINT64 0),
          (''sport'', FS_NULL), (''dport'', FS_NULL),
          (''icmp_responder'', FS_STRING (ntop (pkt_ip6_src packet 14))),
          (''icmp_type'', FS_UINT64 (ucast (packet ! (14 + 40)))),
          (''icmp_code'', FS_UINT64 (ucast (packet ! (14 + 40 + 1)))),
          (''icmp_unreach_str'', FS_NULL), (''udp_pkt_size'', FS_NULL), (''data'', FS_NULL)]"
    by (simp add: ipv6_udp_process_packet_def Let_def sizeof_ether_header_def
        sizeof_ip6_hdr_def sizeof_icmp6_hdr_def IPPROTO_UDP_def IPPROTO_ICMPV6_def
        fs_add_ipv6_fields_def fs_add_defs)
  show "fs_get (ipv6_udp_process_packet ntop packet caplen (fs_add_ipv6_fields ntop [] packet 14))
          ''saddr'' = Some (FS_STRING (ntop (pkt_ip6_dst packet (14 + 40 + 8))))"
    unfolding e by (simp add: fs_get_def)
  show "fs_get (ipv6_udp_process_packet ntop packet caplen (fs_add_ipv6_fields ntop [] packet 14))
          ''icmp_responder'' = Some (FS_STRING (ntop (pkt_ip6_src packet 14)))"
    unfolding e by (simp add: fs_get_def fs_add_ipv6_fields_def Let_def fs_add_defs)
  show "fs_get (ipv6_udp_process_packet ntop packet caplen (fs_add_ipv6_fields ntop [] packet 14))
          ''classification'' = Some (FS_STRING ''icmp-unreach'')"
    unfolding e by (simp add: fs_get_def fs_add_ipv6_fields_def Let_def fs_add_defs)
  show "fs_get (ipv6_udp_process_packet ntop packet caplen (fs_add_ipv6_fields ntop [] packet 14))
          ''success'' = Some (FS_UINT64 0)"
    unfolding e by (simp add: fs_get_def fs_add_ipv6_fields_def Let_def fs_add_defs)
qed


lemma icmp_unreach_frame_p:
  "pkt_ip_p icmp_unreach_frame 14 = IPPROTO_ICMP \<and>
   4 * unat (pkt_ip_hl icmp_unreach_frame 14) + 28 \<le> unat (70 :: u32)"
  by code_simp

lemma icmp_unreach_frame_inner_dst:
  "make_ip_str (pkt_ip_dst icmp_unreach_frame (14 + 4 * unat (pkt_ip_hl icmp_unreach_frame 14) + 8))
     = ''1.2.3.4''"
  by code_simp

lemma icmp_unreach_frame_outer_src:
  "make_ip_str (pkt_ip_src icmp_unreach_frame 14) = ''9.9.9.9''"
  by code_simp

lemma icmp6_unreach_frame_nxt: "pkt_ip6_nxt icmp6_unreach_frame 14 = IPPROTO_ICMPV6"
  by code_simp

theorem icmp_error_record_witness:
  "(\<exists>fs. dns_process_packet default_conf example_com_module icmp_unreach_frame 70
            (fs_add_ip_fields [] icmp_unreach_frame 14) [0, 0, 0, 0] = Inr fs \<and>
         fs_get fs ''saddr'' = Some (FS_STRING ''1.2.3.4'') \<and>
         fs_get fs ''icmp_responder'' = Some (FS_STRING ''9.9.9.9'') \<and>
         fs_get fs ''classification'' = Some (FS_STRING ''icmp'') \<and>
         fs_get fs ''success'' = Some (FS_BOOL False)) \<and>
   fs_get (ipv6_udp_process_packet test_ntop icmp6_unreach_frame 110
             (fs_add_ipv6_fields test_ntop [] icmp6_unreach_frame 14))
      ''classification'' = Some (FS_STRING ''icmp-unreach'') \<and>
   fs_get (ipv6_udp_process_packet test_ntop icmp6_unreach_frame 110
             (fs_add_ipv6_fields test_ntop [] icmp6_unreach_frame 14))
      ''success'' = Some (FS_UINT64 0)"
  using icmp_error_record
          [of icmp_unreach_frame 70 default_conf example_com_module "[0, 0, 0, 0]" test_ntop]
        icmp_error_record
          [of icmp6_unreach_frame 110 default_conf example_com_module "[0, 0, 0, 0]" test_ntop]
        icmp_unreach_frame_p icmp6_unreach_frame_nxt
  unfolding icmp_unreach_frame_inner_dst icmp_unreach_frame_outer_src
  by blast

text \<open>
  Claim C7 as stated fails: for the ICMP port-unreachable message from 9.9.9.9 that
  embeds a probe to 1.2.3.4, the DNS module records the classification \<open>icmp\<close>, not
  \<open>icmp-unreach\<close>.
\<close>

theorem dns_icmp_classification_counterexample:
  "dns_process_packet default_conf example_com_module icmp_unreach_frame 70
       (fs_add_ip_fields [] icmp_unreach_frame 14) [0, 0, 0, 0] = Inr icmp_unreach_record \<and>
   fs_get icmp_unreach_record ''classification'' \<noteq> Some (FS_STRING ''icmp-unreach'')"
  by code_simp

section \<open>Properties of a sender thread\<close>

subsection \<open>Invariants of the loop\<close>


lemma slots_submitted_snoc:
  "slots_submitted (w @ [(slots, rc)]) = slots_submitted w + int (length slots)"
  by (simp add: slots_submitted_def)

lemma send_probes_invariant:
  assumes "send_probes zc E M v6 pd t is = Inr t'" and "P t"
    and step: "\<And>t i t'. send_probe zc E M v6 pd t i = Inr t' \<Longrightarrow> P t \<Longrightarrow> P t'"
  shows "P t'"
  using assms(1,2)
proof (induction "is" arbitrary: t)
  case Nil
  then show ?case by simp
next
  case (Cons i "is")
  then show ?case
    by (auto split: sum.splits dest: step)
qed

lemma skip_unlisted_io:
  "skip_unlisted E set_port t = (t', leave) \<Longrightarrow> io_of t' = io_of t"
proof (induction E set_port t arbitrary: t' leave rule: skip_unlisted.induct)
  case (1 E set_port t)
  show ?case
  proof (cases "pbm_check E (current_ip t)")
    case True
    with "1.prems" show ?thesis by (simp add: skip_unlisted.simps[of E set_port t])
  next
    case False
    obtain c s where n: "shard_get_next_target (shard t) = (c, s)" by fastforce
    let ?t1 = "t\<lparr>shard := s, current := c, current_ip := ip c\<rparr>"
    let ?t2 = "if set_port then ?t1\<lparr>current_port := port c\<rparr> else ?t1"
    have st: "state s = state (shard t)"
      using n by (auto simp: shard_get_next_target_def split: list.splits)
    have eq: "io_of ?t2 = io_of t"
      using st by (simp add: io_of_def)
    show ?thesis
    proof (cases "status c = ZMAP_SHARD_DONE")
      case True
      with False n "1.prems" eq show ?thesis
        by (auto simp: skip_unlisted.simps[of E set_port t] Let_def split: if_splits)
    next
      case nd: False
      have "skip_unlisted E set_port ?t2 = (t', leave)"
        using False n nd "1.prems"
        by (auto simp: skip_unlisted.simps[of E set_port t] Let_def split: if_splits)
      then have "io_of t' = io_of ?t2"
        by (rule "1.IH"[OF False refl n[symmetric] refl refl nd])
      with eq show ?thesis by simp
    qed
  qed
qed

lemma next_target_io:
  assumes "next_target zc E v6 t = (t', leave)"
  shows "io_of t' = io_of t"
proof (cases v6)
  case True
  with assms show ?thesis
    by (auto simp: next_target_def io_of_def split: list.splits)
next
  case False
  obtain c s where n: "shard_get_next_target (shard t) = (c, s)" by fastforce
  let ?t1 = "t\<lparr>shard := s, current := c, current_ip := ip c, current_port := port c\<rparr>"
  have st: "state s = state (shard t)"
    using n by (auto simp: shard_get_next_target_def split: list.splits)
  have eq: "io_of ?t1 = io_of t"
    using st by (simp add: io_of_def)
  show ?thesis
  proof (cases "list_of_ips_filename zc \<noteq> None \<and> status c \<noteq> ZMAP_SHARD_DONE")
    case True
    then have "skip_unlisted E False ?t1 = (t', leave)"
      using assms False n by (simp add: next_target_def)
    from skip_unlisted_io[OF this] eq show ?thesis by simp
  next
    case nf: False
    then have "t' = ?t1"
      using assms False n by (auto simp: next_target_def)
    with eq show ?thesis by simp
  qed
qed

lemma send_loop_invariant:
  assumes "send_loop zc E M v6 pd t = Inr t'" and "P t"
    and "\<And>t i t'. send_probe zc E M v6 pd t i = Inr t' \<Longrightarrow> P t \<Longrightarrow> P t'"
    and "\<And>t t'. io_of t' = io_of t \<Longrightarrow> P t \<Longrightarrow> P t'"
  shows "P t'"
  using assms
proof (induction zc E M v6 pd t rule: send_loop.induct)
  case (1 zc E M v6 pd t)
  note run = "1.prems"(1) and P = "1.prems"(2) and step = "1.prems"(3) and frame = "1.prems"(4)
  let ?stop = "zrecv_complete E (turn t) \<or> max_runtime_reached E (turn t) \<or>
      (max_targets (state (shard t)) \<noteq> 0 \<and>
       targets_scanned (state (shard t)) \<ge> max_targets (state (shard t))) \<or>
      (max_packets (state (shard t)) \<noteq> 0 \<and>
       packets_sent (state (shard t)) \<ge> max_packets (state (shard t))) \<or>
      (\<not> v6 \<and> status (current t) = ZMAP_SHARD_DONE)"
  show ?case
  proof (cases ?stop)
    case True
    then have "t' = t"
      using run by (auto simp: send_loop.simps[of zc E M v6 pd t] split: if_splits)
    with P show ?thesis by simp
  next
    case False
    then obtain t1 where sp: "send_probes zc E M v6 pd t (probe_numbers zc) = Inr t1"
      using run by (auto simp: send_loop.simps[of zc E M v6 pd t] split: sum.splits if_splits)
    have P1: "P t1"
      using sp P step by (rule send_probes_invariant)
    let ?t1 = "t1\<lparr>shard := incr_targets_scanned (shard t1)\<rparr>"
    have "io_of ?t1 = io_of t1"
      by (simp add: io_of_def incr_targets_scanned_def)
    then have P1': "P ?t1" using P1 by (rule frame)
    obtain t2 leave where nt: "next_target zc E v6 ?t1 = (t2, leave)" by fastforce
    have P2: "P t2"
      using next_target_io[OF nt] P1' by (rule frame)
    show ?thesis
    proof (cases leave)
      case True
      then have "t' = t2"
        using False run sp nt by (auto simp: send_loop.simps[of zc E M v6 pd t])
      with P2 show ?thesis by simp
    next
      case nl: False
      let ?t3 = "t2\<lparr>turn := turn t2 + 1\<rparr>"
      have r: "send_loop zc E M v6 pd ?t3 = Inr t'"
        using False run sp nt nl by (auto simp: send_loop.simps[of zc E M v6 pd t])
      have "io_of ?t3 = io_of t2" by (simp add: io_of_def)
      then have P3: "P ?t3" using P2 by (rule frame)
      show ?thesis
        apply (rule "1.IH"[OF _ _ _ _ _ sp nt[symmetric] _ r P3])
        using False step frame nl apply auto
        done
    qed
  qed
qed


lemma send_run_invariant:
  assumes run: "send_run zc E M v6 tf s = Inr (rv, t)"
    and init: "\<And>t. fresh_thread s t \<Longrightarrow> P t"
    and step: "\<And>pd t i t'. send_probe zc E M v6 pd t i = Inr t' \<Longrightarrow> P t \<Longrightarrow> P t'"
    and frame: "\<And>t t'. io_of t' = io_of t \<Longrightarrow> P t \<Longrightarrow> P t'"
  shows "fresh_thread s t \<or> (\<exists>t'. P t' \<and> t = cleanup zc E t')"
proof -
  let ?b = "create_packet_batch (zeroed_buf E) (batch_size zc)"
  let ?t0 = "\<lparr>shard = s, batch = ?b, stdout = [], wire = [], built = [],
               current = cur s, current_ip = 0, current_port = 0, ipv6_dst = [],
               ipv6_file = tf, turn = 0\<rparr>"
  have f0: "fresh_thread s ?t0"
    by (simp add: fresh_thread_def create_packet_batch_def)
  show ?thesis
  proof (cases "send_run_init_ret E \<noteq> 0")
    case True
    then have "t = ?t0" using run by (simp add: send_run_def Let_def)
    with f0 show ?thesis by simp
  next
    case False
    then obtain pd slots where
      rest: "(let t = ?t0\<lparr>batch := ?b\<lparr>packets := slots\<rparr>\<rparr>;
             (t, leave) =
               (if v6 then
                  (case ipv6_file t of
                     [] \<Rightarrow> (t, True)
                   | a # as \<Rightarrow>
                       (t\<lparr>ipv6_dst := a, ipv6_file := as, current_port := ports zc ! 0\<rparr>,
                        False))
                else
                  let t = t\<lparr>current := shard_get_cur_target s\<rparr>
                  in if list_of_ips_filename zc \<noteq> None then skip_unlisted E True t
                     else (t, False))
         in if leave then Inr (EXIT_SUCCESS, cleanup zc E t)
            else
              (case send_loop zc E M v6 pd t of
                 Inl e \<Rightarrow> Inl e
               | Inr t \<Rightarrow> Inr (EXIT_SUCCESS, cleanup zc E t))) = Inr (rv, t)"
      using run by (auto simp: send_run_def Let_def split: sum.splits)
    let ?t1 = "?t0\<lparr>batch := ?b\<lparr>packets := slots\<rparr>\<rparr>"
    have f1: "fresh_thread s ?t1"
      by (simp add: fresh_thread_def create_packet_batch_def)
    obtain t2 leave where
      first: "(if v6 then
                  (case ipv6_file ?t1 of
                     [] \<Rightarrow> (?t1, True)
                   | a # as \<Rightarrow>
                       (?t1\<lparr>ipv6_dst := a, ipv6_file := as, current_port := ports zc ! 0\<rparr>,
                        False))
                else
                  let t = ?t1\<lparr>current := shard_get_cur_target s\<rparr>
                  in if list_of_ips_filename zc \<noteq> None then skip_unlisted E True t
                     else (t, False)) = (t2, leave)"
      by fastforce
    have "io_of t2 = io_of ?t1"
    proof (cases v6)
      case True
      with first show ?thesis by (auto simp: io_of_def split: list.splits)
    next
      case nv: False
      show ?thesis
      proof (cases "list_of_ips_filename zc \<noteq> None")
        case True
        with first nv have "skip_unlisted E True (?t1\<lparr>current := shard_get_cur_target s\<rparr>) = (t2, leave)"
          by (simp add: Let_def)
        from skip_unlisted_io[OF this] show ?thesis by (simp add: io_of_def)
      next
        case False
        with first nv show ?thesis by (auto simp: io_of_def Let_def)
      qed
    qed
    moreover have "P ?t1" using f1 by (rule init)
    ultimately have P2: "P t2" by (rule frame)
    have fin: "(if leave then Inr (EXIT_SUCCESS, cleanup zc E t2)
            else
              (case send_loop zc E M v6 pd t2 of
                 Inl e \<Rightarrow> Inl e
               | Inr t \<Rightarrow> Inr (EXIT_SUCCESS, cleanup zc E t))) = Inr (rv, t)"
      using rest unfolding Let_def first[unfolded Let_def] by simp
    show ?thesis
    proof (cases leave)
      case True
      with fin P2 show ?thesis by auto
    next
      case False
      with fin obtain t3 where l: "send_loop zc E M v6 pd t2 = Inr t3" and t: "t = cleanup zc E t3"
        by (auto split: sum.splits)
      have "P t3" using l P2 step frame by (rule send_loop_invariant)
      with t show ?thesis by auto
    qed
  qed
qed


lemma send_probe_wire_inv:
  assumes "send_probe zc E M v6 pd t i = Inr t'" and "\<not> dryrun zc" and "wire_inv s t"
  shows "wire_inv s t'"
  using assms
  by (auto simp: send_probe_def Let_def log_fatal_def wire_inv_def incr_packets_sent_def
      add_packets_failed_def slots_submitted_snoc
      split: if_splits sum.splits prod.splits)


lemma io_of_wire_inv: "io_of t' = io_of t \<Longrightarrow> wire_inv s t \<Longrightarrow> wire_inv s t'"
  by (simp add: io_of_def wire_inv_def)

subsection \<open>The counter of packets sent\<close>

text \<open>
  What one thread that transmits has counted when \<open>send_run\<close> returns: \<open>packets_sent\<close>
  has grown by the number of slots given to \<open>send_batch\<close>, the last call at the label
  \<open>cleanup\<close> included.
\<close>

lemma send_run_shard_counters:
  assumes "\<not> dryrun zc" and "send_run zc E M v6 tf s = Inr (rv, t)"
  shows "packets_sent (state (shard t)) = packets_sent (state s) + slots_submitted (wire t)"
proof -
  have "fresh_thread s t \<or> (\<exists>t'. wire_inv s t' \<and> t = cleanup zc E t')"
    using assms(2)
  proof (rule send_run_invariant)
    show "\<And>t. fresh_thread s t \<Longrightarrow> wire_inv s t"
      by (simp add: fresh_thread_def wire_inv_def slots_submitted_def)
    show "\<And>pd t i t'. send_probe zc E M v6 pd t i = Inr t' \<Longrightarrow> wire_inv s t \<Longrightarrow> wire_inv s t'"
      using assms(1) by (blast intro: send_probe_wire_inv)
    show "\<And>t t'. io_of t' = io_of t \<Longrightarrow> wire_inv s t \<Longrightarrow> wire_inv s t'"
      by (rule io_of_wire_inv)
  qed
  then show ?thesis
    using assms(1)
    by (auto simp: fresh_thread_def wire_inv_def cleanup_def Let_def slots_submitted_snoc
        slots_submitted_def)
qed

lemma test_run_returns:
  "\<not> isl (send_run test_conf test_env (module_dns test_conf example_com_module) False []
            test_shard)"
  by code_simp

text \<open>
  Claim C1, as amended. In a scan that transmits and whose threads all return, the sum
  over the threads of the counters \<open>packets_sent\<close> that \<open>send_run\<close> leaves in the
  shards is the sum of their values at the start plus the number of batch slots given
  to \<open>send_batch\<close>, each slot counted once, whether \<open>send_batch\<close> sent it or not.
\<close>

theorem send_run_aggregate_packets_sent:
  assumes "\<not> dryrun zc" and "threads_ran zc M v6 runs"
  shows "(\<Sum>(E, tf, s, rv, t)\<leftarrow>runs. packets_sent (state (shard t))) =
           (\<Sum>(E, tf, s, rv, t)\<leftarrow>runs. packets_sent (state s) + slots_submitted (wire t))"
  using assms(2)
proof (induction runs)
  case Nil
  then show ?case by simp
next
  case (Cons r runs)
  obtain E tf s rv t where r: "r = (E, tf, s, rv, t)" by (cases r) auto
  from Cons.prems r have run: "send_run zc E M v6 tf s = Inr (rv, t)"
    and rest: "threads_ran zc M v6 runs"
    by (simp_all add: threads_ran_def)
  from send_run_shard_counters[OF assms(1) run] Cons.IH[OF rest] r
  show ?case by simp
qed

theorem send_run_aggregate_packets_sent_witness:
  "\<not> dryrun test_conf \<and>
   (\<exists>rv t. threads_ran test_conf (module_dns test_conf example_com_module) False
              [(test_env, [], test_shard, rv, t)] \<and>
            packets_sent (state (shard t)) =
              packets_sent (state test_shard) + slots_submitted (wire t))"
proof -
  have nd: "\<not> dryrun test_conf"
    by (simp add: test_conf_def default_conf_def)
  obtain rv t where run:
    "send_run test_conf test_env (module_dns test_conf example_com_module) False []
       test_shard = Inr (rv, t)"
    using test_run_returns
    by (cases "send_run test_conf test_env (module_dns test_conf example_com_module) False []
                 test_shard") auto
  then have ran: "threads_ran test_conf (module_dns test_conf example_com_module) False
                    [(test_env, [], test_shard, rv, t)]"
    by (simp add: threads_ran_def)
  from send_run_aggregate_packets_sent[OF nd ran] nd ran show ?thesis
    by auto
qed

text \<open>
  Claim C1 as stated fails: with a batch of two slots, one question and two targets,
  and a \<open>send_batch\<close> that sends no packet of the batch it is given, the thread ends
  with \<open>packets_sent\<close> = 2, two slots given to \<open>send_batch\<close>, and no slot sent.
\<close>

theorem send_run_packets_sent_counterexample:
  "thread_counts (send_run test_conf test_env (module_dns test_conf example_com_module)
                    False [] test_shard) = Some (2, 2, 0)"
  by code_simp

subsection \<open>The dry run\<close>




end
